theory Spec2Isabelle
  imports Main "HOL-Library.AList"
begin

section \<open>PhenoTipsBot: reference names\<close>

text \<open>
  \<^verbatim>\<open>str.startswith\<close>: the string begins with the given prefix.
\<close>

definition startswith :: "string \<Rightarrow> string \<Rightarrow> bool" where
  "startswith s p = (take (length p) s = p)"

text \<open>
  \<^verbatim>\<open>PhenoTipsBot.qualify(pagename, namespace='XWiki')\<close>. The default argument is passed
  explicitly by the callers below. \<^verbatim>\<open>'.' in pagename\<close> on a one-character needle is
  membership of that character.
\<close>

definition qualify :: "string \<Rightarrow> string \<Rightarrow> string" where
  "qualify pagename namespace =
     (if pagename = [] then pagename
      else
        let pagename1 = (if CHR ''.'' \<notin> set pagename
                         then namespace @ ''.'' @ pagename else pagename);
            pagename2 = (if CHR '':'' \<notin> set pagename1
                         then ''xwiki:'' @ pagename1 else pagename1)
        in pagename2)"

text \<open>
  \<^verbatim>\<open>PhenoTipsBot.unqualify(pagename, namespace='XWiki')\<close>. The source has two
  \<^verbatim>\<open>if ... return\<close> statements and then falls off the end of the function, which in
  Python returns \<^verbatim>\<open>None\<close>: the result is an option.
\<close>

definition unqualify :: "string \<Rightarrow> string \<Rightarrow> string option" where
  "unqualify pagename namespace =
     (if startswith pagename (''xwiki:'' @ namespace @ ''.'')
      then Some (drop (length ''xwiki:'' + length namespace + length ''.'') pagename)
      else if startswith pagename ''xwiki:''
      then Some (drop (length ''xwiki:'') pagename)
      else None)"

section \<open>Errors, HTTP and the event trace\<close>

text \<open>
  Every exception the modelled code can raise is a value. \<open>HTTPError\<close> is what
  \<^verbatim>\<open>Response.raise_for_status\<close> raises, with the status; \<open>LibraryError\<close> stands for
  an exception raised inside a library call (the transport failing to connect, the XML
  or JSON parser rejecting a body).
\<close>

datatype error =
    HTTPError nat
  | TypeError string
  | KeyError string
  | NameError string
  | AttributeError string
  | IndexError
  | LibraryError string

datatype http_method = GET | POST | PUT | DELETE

text \<open>
  A call \<^verbatim>\<open>requests.get/post/put/delete(url, auth=..., data=..., verify=...)\<close>. The
  form data is a Python dict: an association list in insertion order, with distinct keys.
\<close>

record request =
  req_method :: http_method
  req_url :: string
  req_data :: "(string \<times> string) list"
  req_auth :: "string \<times> string"
  req_verify :: bool

text \<open>
  The part of \<^verbatim>\<open>requests.Response\<close> the code reads. \<^verbatim>\<open>r.headers\<close> is a
  case-insensitive dict; it is keyed here by the lower-case header name, which is how
  the code spells the names it looks up. \<open>resp_text\<close> is \<^verbatim>\<open>r.text\<close>.
\<close>

record response =
  status_code :: nat
  headers :: "(string \<times> string) list"
  resp_text :: string

text \<open>
  An \<^verbatim>\<open>xml.etree.ElementTree.Element\<close>: tag, attribute dict, text (\<^verbatim>\<open>None\<close> for an
  empty element) and children in document order.
\<close>

datatype element =
  Element (tag: string) (attrib: "(string \<times> string) list") (el_text: "string option")
    (children: "element list")

text \<open>The value \<^verbatim>\<open>json.loads\<close> returns.\<close>

datatype json =
    JNull
  | JBool bool
  | JNum int
  | JStr string
  | JArr "json list"
  | JObj "(string \<times> json) list"

text \<open>
  What lies outside the repository: the server, which answers a request in the light of
  the requests it has received so far (or the transport raises), and the two parsers.
\<close>

record env =
  server :: "request list \<Rightarrow> request \<Rightarrow> error + response"
  fromstring :: "string \<Rightarrow> error + element"
  json_loads :: "string \<Rightarrow> error + json"

text \<open>The \<^verbatim>\<open>PhenoTipsBot\<close> instance: the fields \<^verbatim>\<open>__init__\<close> sets.\<close>

record bot =
  base :: string
  auth :: "string \<times> string"
  ssl_verify :: bool

text \<open>
  Everything observable a call does, in order: the HTTP requests it issues, the values
  the exporter hands to its progress callback, and the rows the exporter hands to
  \<^verbatim>\<open>csv.writer(out_file).writerow\<close>. A cell is \<^verbatim>\<open>None\<close> or a string.
\<close>

datatype event =
    Request request
  | Progress nat
  | WriteRow "string option list"

fun requests_of :: "event list \<Rightarrow> request list" where
  "requests_of [] = []"
| "requests_of (Request r # tr) = r # requests_of tr"
| "requests_of (_ # tr) = requests_of tr"

fun progress_of :: "event list \<Rightarrow> nat list" where
  "progress_of [] = []"
| "progress_of (Progress n # tr) = n # progress_of tr"
| "progress_of (_ # tr) = progress_of tr"

fun rows_of :: "event list \<Rightarrow> string option list list" where
  "rows_of [] = []"
| "rows_of (WriteRow row # tr) = row # rows_of tr"
| "rows_of (_ # tr) = rows_of tr"

definition mk_request ::
  "http_method \<Rightarrow> bot \<Rightarrow> string \<Rightarrow> (string \<times> string) list \<Rightarrow> request" where
  "mk_request m self u d =
     \<lparr>req_method = m, req_url = u, req_data = d, req_auth = auth self,
      req_verify = ssl_verify self\<rparr>"

text \<open>
  Issuing a request: it is appended to the trace whether or not the transport raises,
  and the server sees the requests issued before it.
\<close>

definition send :: "env \<Rightarrow> request \<Rightarrow> event list \<Rightarrow> (error + response) \<times> event list" where
  "send e req tr = (server e (requests_of tr) req, tr @ [Request req])"

text \<open>
  \<^verbatim>\<open>Response.raise_for_status\<close> of the requests library: an exception for a 4xx or
  5xx status, nothing otherwise.
\<close>

definition raise_for_status :: "response \<Rightarrow> error + unit" where
  "raise_for_status r =
     (if 400 \<le> status_code r \<and> status_code r < 600 then Inl (HTTPError (status_code r))
      else Inr ())"

section \<open>Library functions on strings and elements\<close>

text \<open>\<^verbatim>\<open>str.split(sep)\<close> for a one-character separator: never an empty list.\<close>

fun split_on :: "char \<Rightarrow> string \<Rightarrow> string list" where
  "split_on c [] = [[]]"
| "split_on c (x # xs) =
     (if x = c then [] # split_on c xs
      else (case split_on c xs of
              [] \<Rightarrow> [[x]]
            | w # ws \<Rightarrow> (x # w) # ws))"

text \<open>\<^verbatim>\<open>s[s.rfind('/')+1:]\<close>: what follows the last slash, all of \<open>s\<close> if it has none.\<close>

definition after_last_slash :: "string \<Rightarrow> string" where
  "after_last_slash s = rev (takeWhile (\<lambda>c. c \<noteq> CHR ''/'') (rev s))"

text \<open>\<^verbatim>\<open>Element.iter(tag)\<close>: the element and all its descendants, in document order,
  that carry the tag.\<close>

fun iter_all :: "element \<Rightarrow> element list" where
  "iter_all (Element t a x cs) = Element t a x cs # concat (map iter_all cs)"

definition iter_tag :: "string \<Rightarrow> element \<Rightarrow> element list" where
  "iter_tag tg root = filter (\<lambda>el. tag el = tg) (iter_all root)"

text \<open>The path step \<^verbatim>\<open>tag\<close>: the direct children with that tag.\<close>

definition children_tagged :: "string \<Rightarrow> element \<Rightarrow> element list" where
  "children_tagged tg el = filter (\<lambda>c. tag c = tg) (children el)"

text \<open>The path predicate \<^verbatim>\<open>[@name="value"]\<close>.\<close>

definition having_attr :: "string \<Rightarrow> string \<Rightarrow> element list \<Rightarrow> element list" where
  "having_attr k v els = filter (\<lambda>el. map_of (attrib el) k = Some v) els"

text \<open>\<^verbatim>\<open>Element.findall\<close> on a path of tags \<^verbatim>\<open>./t1/t2/...\<close>.\<close>

fun findall :: "string list \<Rightarrow> element \<Rightarrow> element list" where
  "findall [] el = [el]"
| "findall (t # ts) el = concat (map (findall ts) (children_tagged t el))"

text \<open>\<^verbatim>\<open>Element.find\<close> returns the first match, or \<^verbatim>\<open>None\<close>.\<close>

definition first_match :: "element list \<Rightarrow> element option" where
  "first_match els = (case els of [] \<Rightarrow> None | el # _ \<Rightarrow> Some el)"

text \<open>\<^verbatim>\<open>value[key]\<close> on what \<^verbatim>\<open>json.loads\<close> returned, for a string key.\<close>

definition json_subscript :: "json \<Rightarrow> string \<Rightarrow> error + json" where
  "json_subscript j k =
     (case j of
        JObj kvs \<Rightarrow> (case map_of kvs k of None \<Rightarrow> Inl (KeyError k) | Some v \<Rightarrow> Inr v)
      | _ \<Rightarrow> Inl (TypeError ''subscript''))"

section \<open>The client: sub-objects\<close>

text \<open>
  The loop of \<^verbatim>\<open>create_object\<close> and \<^verbatim>\<open>set_object\<close>:
  \<^verbatim>\<open>for key, value in object_obj.items(): data['property#' + key] = value\<close>.
\<close>

fun form_data :: "(string \<times> string) list \<Rightarrow> (string \<times> string) list \<Rightarrow> (string \<times> string) list" where
  "form_data [] data = data"
| "form_data ((key, val) # items) data =
     form_data items (AList.update (''property#'' @ key) val data)"

definition create_object ::
  "env \<Rightarrow> bot \<Rightarrow> string \<Rightarrow> string \<Rightarrow> (string \<times> string) list \<Rightarrow> event list
   \<Rightarrow> (error + string) \<times> event list" where
  "create_object e self patient_id object_class object_obj tr =
     (let url = base self @ ''/rest/wikis/xwiki/spaces/data/pages/'' @ patient_id @ ''/objects'';
          data = form_data object_obj [(''className'', object_class)]
      in case send e (mk_request POST self url data) tr of
           (Inl err, tr1) \<Rightarrow> (Inl err, tr1)
         | (Inr r, tr1) \<Rightarrow>
             (case raise_for_status r of
                Inl err \<Rightarrow> (Inl err, tr1)
              | Inr _ \<Rightarrow>
                  (case map_of (headers r) ''location'' of
                     None \<Rightarrow> (Inl (KeyError ''location''), tr1)
                   | Some object_number \<Rightarrow> (Inr (after_last_slash object_number), tr1))))"

text \<open>
  \<^verbatim>\<open>delete_object(self, patient_id, object_class, object_num)\<close>. The expression that
  builds the URL ends in the name \<^verbatim>\<open>relative_num\<close>. Python resolves a name among the
  function's parameters and locals, then the module's globals and the builtins; the
  module defines no \<^verbatim>\<open>relative_num\<close>, so the lookup is the one among the parameters,
  and a name that is not found raises \<^verbatim>\<open>NameError\<close>.
\<close>

definition delete_object ::
  "env \<Rightarrow> bot \<Rightarrow> string \<Rightarrow> string \<Rightarrow> string \<Rightarrow> event list \<Rightarrow> (error + unit) \<times> event list" where
  "delete_object e self patient_id object_class object_num tr =
     (case map_of [(''patient_id'', patient_id), (''object_class'', object_class),
                   (''object_num'', object_num)] ''relative_num'' of
        None \<Rightarrow> (Inl (NameError ''relative_num''), tr)
      | Some relative_num \<Rightarrow>
          (let url = base self @ ''/rest/wikis/xwiki/spaces/data/pages/'' @ patient_id
                       @ ''/objects/'' @ object_class @ ''/'' @ relative_num
           in case send e (mk_request DELETE self url []) tr of
                (Inl err, tr1) \<Rightarrow> (Inl err, tr1)
              | (Inr r, tr1) \<Rightarrow> (raise_for_status r, tr1)))"

definition delete_collaborator ::
  "env \<Rightarrow> bot \<Rightarrow> string \<Rightarrow> string \<Rightarrow> event list \<Rightarrow> (error + unit) \<times> event list" where
  "delete_collaborator e self patient_id collaborator_num tr =
     delete_object e self patient_id ''PhenoTips.CollaboratorClass'' collaborator_num tr"

definition delete_relative ::
  "env \<Rightarrow> bot \<Rightarrow> string \<Rightarrow> string \<Rightarrow> event list \<Rightarrow> (error + unit) \<times> event list" where
  "delete_relative e self patient_id relative_num tr =
     delete_object e self patient_id ''PhenoTips.RelativeClass'' relative_num tr"

definition delete_vcf ::
  "env \<Rightarrow> bot \<Rightarrow> string \<Rightarrow> string \<Rightarrow> event list \<Rightarrow> (error + unit) \<times> event list" where
  "delete_vcf e self patient_id vcf_num tr =
     delete_object e self patient_id ''PhenoTips.VCF'' vcf_num tr"

text \<open>
  The loop of \<^verbatim>\<open>get_object\<close>:
  \<^verbatim>\<open>ret[prop.attrib['name']] = prop.find('{http://www.xwiki.org}value').text\<close>.
  Python evaluates the right-hand side first, so a property without a value child
  raises \<^verbatim>\<open>AttributeError\<close> before a missing name raises \<^verbatim>\<open>KeyError\<close>.
\<close>

fun get_object_loop ::
  "element list \<Rightarrow> (string \<times> string option) list \<Rightarrow> error + (string \<times> string option) list" where
  "get_object_loop [] ret = Inr ret"
| "get_object_loop (prop # props) ret =
     (case first_match (children_tagged ''{http://www.xwiki.org}value'' prop) of
        None \<Rightarrow> Inl (AttributeError ''text'')
      | Some v \<Rightarrow>
          (case map_of (attrib prop) ''name'' of
             None \<Rightarrow> Inl (KeyError ''name'')
           | Some name \<Rightarrow> get_object_loop props (AList.update name (el_text v) ret)))"

definition get_object ::
  "env \<Rightarrow> bot \<Rightarrow> string \<Rightarrow> string \<Rightarrow> string \<Rightarrow> event list
   \<Rightarrow> (error + (string \<times> string option) list) \<times> event list" where
  "get_object e self patient_id object_class object_num tr =
     (let url = base self @ ''/rest/wikis/xwiki/spaces/data/pages/'' @ patient_id
                  @ ''/objects/'' @ object_class @ ''/'' @ object_num
      in case send e (mk_request GET self url []) tr of
           (Inl err, tr1) \<Rightarrow> (Inl err, tr1)
         | (Inr r, tr1) \<Rightarrow>
             (case raise_for_status r of
                Inl err \<Rightarrow> (Inl err, tr1)
              | Inr _ \<Rightarrow>
                  (case fromstring e (resp_text r) of
                     Inl err \<Rightarrow> (Inl err, tr1)
                   | Inr root \<Rightarrow>
                       (get_object_loop (iter_tag ''{http://www.xwiki.org}property'' root) [],
                        tr1))))"

definition get ::
  "env \<Rightarrow> bot \<Rightarrow> string \<Rightarrow> event list \<Rightarrow> (error + (string \<times> string option) list) \<times> event list" where
  "get e self patient_id tr = get_object e self patient_id ''PhenoTips.PatientClass'' ''0'' tr"

definition set_object ::
  "env \<Rightarrow> bot \<Rightarrow> string \<Rightarrow> string \<Rightarrow> string \<Rightarrow> (string \<times> string) list \<Rightarrow> event list
   \<Rightarrow> (error + unit) \<times> event list" where
  "set_object e self patient_id object_class object_num object_obj tr =
     (let url = base self @ ''/rest/wikis/xwiki/spaces/data/pages/'' @ patient_id
                  @ ''/objects/'' @ object_class @ ''/'' @ object_num;
          data = form_data object_obj []
      in case send e (mk_request PUT self url data) tr of
           (Inl err, tr1) \<Rightarrow> (Inl err, tr1)
         | (Inr r, tr1) \<Rightarrow> (raise_for_status r, tr1))"

section \<open>The client: owner and study\<close>

text \<open>
  \<^verbatim>\<open>get_owner\<close>: \<^verbatim>\<open>unqualify(self.get_object(...)['owner'])\<close>. A missing key raises
  \<^verbatim>\<open>KeyError\<close>; a value that is \<^verbatim>\<open>None\<close> has no \<^verbatim>\<open>startswith\<close>.
\<close>

definition get_owner ::
  "env \<Rightarrow> bot \<Rightarrow> string \<Rightarrow> event list \<Rightarrow> (error + string option) \<times> event list" where
  "get_owner e self patient_id tr =
     (case get_object e self patient_id ''PhenoTips.OwnerClass'' ''0'' tr of
        (Inl err, tr1) \<Rightarrow> (Inl err, tr1)
      | (Inr obj, tr1) \<Rightarrow>
          (case map_of obj ''owner'' of
             None \<Rightarrow> (Inl (KeyError ''owner''), tr1)
           | Some None \<Rightarrow> (Inl (AttributeError ''startswith''), tr1)
           | Some (Some v) \<Rightarrow> (Inr (unqualify v ''XWiki''), tr1)))"

text \<open>
  \<^verbatim>\<open>set_owner\<close>: the source binds \<^verbatim>\<open>owner_name = PhenoTipsBot.qualify(owner)\<close> and then
  passes \<^verbatim>\<open>{'owner': owner}\<close> to \<^verbatim>\<open>set_object\<close>.
\<close>

definition set_owner ::
  "env \<Rightarrow> bot \<Rightarrow> string \<Rightarrow> string \<Rightarrow> event list \<Rightarrow> (error + unit) \<times> event list" where
  "set_owner e self patient_id owner tr =
     (let owner_name = qualify owner ''XWiki''
      in set_object e self patient_id ''PhenoTips.OwnerClass'' ''0'' [(''owner'', owner)] tr)"

text \<open>
  \<^verbatim>\<open>get_study\<close>. The result is \<^verbatim>\<open>None\<close> or a string. \<^verbatim>\<open>root.find\<close> may find nothing,
  and \<^verbatim>\<open>el.text\<close> then raises; \<^verbatim>\<open>not el.text\<close> holds of \<^verbatim>\<open>None\<close> and of the empty
  string.
\<close>

definition get_study ::
  "env \<Rightarrow> bot \<Rightarrow> string \<Rightarrow> event list \<Rightarrow> (error + string option) \<times> event list" where
  "get_study e self patient_id tr =
     (let url = base self @ ''/rest/wikis/xwiki/spaces/data/pages/'' @ patient_id
                  @ ''/objects/PhenoTips.StudyBindingClass/0''
      in case send e (mk_request GET self url []) tr of
           (Inl err, tr1) \<Rightarrow> (Inl err, tr1)
         | (Inr r, tr1) \<Rightarrow>
             (if status_code r = 404 then (Inr None, tr1)
              else
                (case raise_for_status r of
                   Inl err \<Rightarrow> (Inl err, tr1)
                 | Inr _ \<Rightarrow>
                     (case fromstring e (resp_text r) of
                        Inl err \<Rightarrow> (Inl err, tr1)
                      | Inr root \<Rightarrow>
                          (case first_match
                                  (concat (map (children_tagged ''{http://www.xwiki.org}value'')
                                     (having_attr ''name'' ''studyReference''
                                        (children_tagged ''{http://www.xwiki.org}property'' root)))) of
                             None \<Rightarrow> (Inl (AttributeError ''text''), tr1)
                           | Some el \<Rightarrow>
                               (case el_text el of
                                  None \<Rightarrow> (Inr (Some []), tr1)
                                | Some t \<Rightarrow>
                                    (if t = [] then (Inr (Some []), tr1)
                                     else (Inr (unqualify t ''Studies''), tr1))))))))"

text \<open>
  \<^verbatim>\<open>set_study\<close>; \<open>study\<close> is \<^verbatim>\<open>None\<close> or a string. In the branch that deletes, the
  response of \<^verbatim>\<open>requests.delete\<close> is dropped and \<^verbatim>\<open>r.raise_for_status()\<close> looks at the
  response of the first request again.
\<close>

definition set_study ::
  "env \<Rightarrow> bot \<Rightarrow> string \<Rightarrow> string option \<Rightarrow> event list \<Rightarrow> (error + unit) \<times> event list" where
  "set_study e self patient_id study tr =
     (let url = base self @ ''/rest/wikis/xwiki/spaces/data/pages/'' @ patient_id
                  @ ''/objects/PhenoTips.StudyBindingClass/0''
      in case send e (mk_request GET self url []) tr of
           (Inl err, tr1) \<Rightarrow> (Inl err, tr1)
         | (Inr r, tr1) \<Rightarrow>
             (if status_code r = 404 then
                (case study of
                   None \<Rightarrow> (Inr (), tr1)
                 | Some s \<Rightarrow>
                     (let data = [(''studyReference'', qualify s ''Studies'')]
                      in case create_object e self patient_id ''PhenoTips.StudyBindingClass''
                                data tr1 of
                           (Inl err, tr2) \<Rightarrow> (Inl err, tr2)
                         | (Inr _, tr2) \<Rightarrow> (Inr (), tr2)))
              else
                (case raise_for_status r of
                   Inl err \<Rightarrow> (Inl err, tr1)
                 | Inr _ \<Rightarrow>
                     (case study of
                        None \<Rightarrow>
                          (case send e (mk_request DELETE self url []) tr1 of
                             (Inl err, tr2) \<Rightarrow> (Inl err, tr2)
                           | (Inr _, tr2) \<Rightarrow> (raise_for_status r, tr2))
                      | Some s \<Rightarrow>
                          (let data = [(''property#studyReference'', qualify s ''Studies'')]
                           in case send e (mk_request PUT self url data) tr1 of
                                (Inl err, tr2) \<Rightarrow> (Inl err, tr2)
                              | (Inr r2, tr2) \<Rightarrow> (raise_for_status r2, tr2))))))"

section \<open>The client: identifier lookup\<close>

text \<open>What \<^verbatim>\<open>get_id\<close> returns: \<^verbatim>\<open>None\<close>, the value of the \<^verbatim>\<open>id\<close> key, or a list of the
  texts of the \<^verbatim>\<open>id\<close> elements.\<close>

datatype id_result =
    NoId
  | OneId json
  | IdList "string option list"

definition get_id ::
  "env \<Rightarrow> bot \<Rightarrow> string \<Rightarrow> event list \<Rightarrow> (error + id_result) \<times> event list" where
  "get_id e self external_id tr =
     (let url = base self @ ''/rest/patients/eid/'' @ external_id
      in case send e (mk_request GET self url []) tr of
           (Inl err, tr1) \<Rightarrow> (Inl err, tr1)
         | (Inr r, tr1) \<Rightarrow>
             (if status_code r = 404 then (Inr NoId, tr1)
              else
                (case raise_for_status r of
                   Inl err \<Rightarrow> (Inl err, tr1)
                 | Inr _ \<Rightarrow>
                     (case map_of (headers r) ''content-type'' of
                        None \<Rightarrow> (Inl (KeyError ''content-type''), tr1)
                      | Some h \<Rightarrow>
                          (case split_on CHR '';'' h of
                             [] \<Rightarrow> (Inl IndexError, tr1)
                           | content_type # _ \<Rightarrow>
                               (if content_type = ''application/json'' then
                                  (case json_loads e (resp_text r) of
                                     Inl err \<Rightarrow> (Inl err, tr1)
                                   | Inr j \<Rightarrow>
                                       (case json_subscript j ''id'' of
                                          Inl err \<Rightarrow> (Inl err, tr1)
                                        | Inr v \<Rightarrow> (Inr (OneId v), tr1)))
                                else if content_type = ''application/xml'' then
                                  (case fromstring e (resp_text r) of
                                     Inl err \<Rightarrow> (Inl err, tr1)
                                   | Inr root \<Rightarrow>
                                       (let id_elements =
                                              findall [''{http://www.xwiki.org}alternatives'',
                                                       ''{http://www.xwiki.org}patient'',
                                                       ''{http://www.xwiki.org}id''] root
                                        in (Inr (IdList (map el_text id_elements)), tr1)))
                                else (Inl (TypeError ''Expected JSON or XML''), tr1)))))))"

section \<open>The client: class schema\<close>

text \<open>
  The descriptor of a property: the dict with the key \<^verbatim>\<open>type\<close> and, when the class
  has them, \<^verbatim>\<open>numberType\<close>, \<^verbatim>\<open>validationRegExp\<close> and \<^verbatim>\<open>values\<close>.
\<close>

record prop_desc =
  prop_type :: string
  numberType :: "string option"
  validationRegExp :: "string option"
  prop_values :: "(string \<times> string) list option"

text \<open>
  The inner loop of \<^verbatim>\<open>list_class_properties\<close> over
  \<^verbatim>\<open>values_el.attrib['value'].split('|')\<close>: a pair \<^verbatim>\<open>key=value\<close>, or a bare token that
  is its own value.
\<close>

fun parse_values :: "string list \<Rightarrow> (string \<times> string) list \<Rightarrow> error + (string \<times> string) list" where
  "parse_values [] vals = Inr vals"
| "parse_values (key_value_pair # rest) vals =
     (case split_on CHR ''='' key_value_pair of
        [] \<Rightarrow> Inl IndexError
      | [k] \<Rightarrow> parse_values rest (AList.update k k vals)
      | k # v # _ \<Rightarrow> parse_values rest (AList.update k v vals))"

text \<open>\<^verbatim>\<open>el.attrib['value']\<close> when \<^verbatim>\<open>el != None\<close>.\<close>

definition attr_value :: "element option \<Rightarrow> error + string option" where
  "attr_value el =
     (case el of
        None \<Rightarrow> Inr None
      | Some a \<Rightarrow>
          (case map_of (attrib a) ''value'' of
             None \<Rightarrow> Inl (KeyError ''value'')
           | Some v \<Rightarrow> Inr (Some v)))"

text \<open>One pass of the outer loop: the name of a property element and its descriptor.\<close>

definition class_property :: "element \<Rightarrow> error + string \<times> prop_desc" where
  "class_property prop =
     (case map_of (attrib prop) ''name'' of
        None \<Rightarrow> Inl (KeyError ''name'')
      | Some prop_name \<Rightarrow>
          (case map_of (attrib prop) ''type'' of
             None \<Rightarrow> Inl (KeyError ''type'')
           | Some ty \<Rightarrow>
               (let attrs = children_tagged ''{http://www.xwiki.org}attribute'' prop;
                    number_type_el = first_match (having_attr ''name'' ''numberType'' attrs);
                    regex_el = first_match (having_attr ''name'' ''validationRegExp'' attrs);
                    values_el = first_match (having_attr ''name'' ''values'' attrs)
                in case attr_value number_type_el of
                     Inl err \<Rightarrow> Inl err
                   | Inr number_type \<Rightarrow>
                       (case attr_value regex_el of
                          Inl err \<Rightarrow> Inl err
                        | Inr regex \<Rightarrow>
                            (case attr_value values_el of
                               Inl err \<Rightarrow> Inl err
                             | Inr None \<Rightarrow>
                                 Inr (prop_name,
                                      \<lparr>prop_type = ty, numberType = number_type,
                                       validationRegExp = regex, prop_values = None\<rparr>)
                             | Inr (Some s) \<Rightarrow>
                                 (case parse_values (split_on CHR ''|'' s) [] of
                                    Inl err \<Rightarrow> Inl err
                                  | Inr vals \<Rightarrow>
                                      Inr (prop_name,
                                           \<lparr>prop_type = ty, numberType = number_type,
                                            validationRegExp = regex,
                                            prop_values = Some vals\<rparr>)))))))"

text \<open>
  The outer loop, filling the \<^verbatim>\<open>OrderedDict\<close>: a name seen again keeps its place and
  takes the new descriptor.
\<close>

fun class_properties_loop ::
  "element list \<Rightarrow> (string \<times> prop_desc) list \<Rightarrow> error + (string \<times> prop_desc) list" where
  "class_properties_loop [] ret = Inr ret"
| "class_properties_loop (prop # props) ret =
     (case class_property prop of
        Inl err \<Rightarrow> Inl err
      | Inr (prop_name, d) \<Rightarrow> class_properties_loop props (AList.update prop_name d ret))"

definition list_class_properties ::
  "env \<Rightarrow> bot \<Rightarrow> string \<Rightarrow> event list \<Rightarrow> (error + (string \<times> prop_desc) list) \<times> event list" where
  "list_class_properties e self class_name tr =
     (let url = base self @ ''/rest/wikis/xwiki/classes/'' @ class_name
      in case send e (mk_request GET self url []) tr of
           (Inl err, tr1) \<Rightarrow> (Inl err, tr1)
         | (Inr r, tr1) \<Rightarrow>
             (case raise_for_status r of
                Inl err \<Rightarrow> (Inl err, tr1)
              | Inr _ \<Rightarrow>
                  (case fromstring e (resp_text r) of
                     Inl err \<Rightarrow> (Inl err, tr1)
                   | Inr root \<Rightarrow>
                       (class_properties_loop
                          (iter_tag ''{http://www.xwiki.org}property'' root) [], tr1))))"

definition list_patient_class_properties ::
  "env \<Rightarrow> bot \<Rightarrow> event list \<Rightarrow> (error + (string \<times> prop_desc) list) \<times> event list" where
  "list_patient_class_properties e self tr =
     list_class_properties e self ''PhenoTips.PatientClass'' tr"

section \<open>The exporter\<close>

text \<open>
  The inner loop of \<^verbatim>\<open>export_patients\<close>:
  \<^verbatim>\<open>for prop_name in prop_names: row.append(patient[prop_name])\<close>.
\<close>

fun make_row ::
  "string list \<Rightarrow> (string \<times> string option) list \<Rightarrow> string option list
   \<Rightarrow> error + string option list" where
  "make_row [] patient row = Inr row"
| "make_row (prop_name # prop_names) patient row =
     (case map_of patient prop_name of
        None \<Rightarrow> Inl (KeyError prop_name)
      | Some v \<Rightarrow> make_row prop_names patient (row @ [v]))"

text \<open>
  The loop over \<^verbatim>\<open>patient_ids\<close>. The callback and the writer are seen through the
  events they receive: \<open>Progress count\<close> and \<open>WriteRow row\<close>.
\<close>

fun export_loop ::
  "env \<Rightarrow> bot \<Rightarrow> string list \<Rightarrow> string list \<Rightarrow> nat \<Rightarrow> nat \<Rightarrow> event list
   \<Rightarrow> (error + nat) \<times> event list" where
  "export_loop e bt prop_names [] count n_exported tr = (Inr n_exported, tr)"
| "export_loop e bt prop_names (patient_id # patient_ids) count n_exported tr =
     (let tr1 = tr @ [Progress count];
          count1 = count + 1
      in case get e bt patient_id tr1 of
           (Inl err, tr2) \<Rightarrow> (Inl err, tr2)
         | (Inr patient, tr2) \<Rightarrow>
             (case make_row prop_names patient [] of
                Inl err \<Rightarrow> (Inl err, tr2)
              | Inr row \<Rightarrow>
                  export_loop e bt prop_names patient_ids count1 (n_exported + 1)
                    (tr2 @ [WriteRow row])))"

text \<open>
  \<^verbatim>\<open>export_patients(bot, patient_ids, out_file, progress_callback)\<close>, with the client of
  this repository as \<open>bot\<close>. Iterating the \<^verbatim>\<open>OrderedDict\<close> of the schema yields its keys
  in order: they are the header row and the columns of every row. The second component
  of the result is the \<^verbatim>\<open>timedelta\<close> between two readings of the clock, a floating-point
  value that is handed through as \<open>elapsed\<close>.
\<close>

definition export_patients ::
  "env \<Rightarrow> bot \<Rightarrow> string list \<Rightarrow> 't \<Rightarrow> event list \<Rightarrow> (error + nat \<times> 't) \<times> event list" where
  "export_patients e bt patient_ids elapsed tr =
     (case list_patient_class_properties e bt tr of
        (Inl err, tr1) \<Rightarrow> (Inl err, tr1)
      | (Inr schema, tr1) \<Rightarrow>
          (let prop_names = map fst schema;
               tr2 = tr1 @ [WriteRow (map Some prop_names)]
           in case export_loop e bt prop_names patient_ids 0 0 tr2 of
                (Inl err, tr3) \<Rightarrow> (Inl err, tr3)
              | (Inr n_exported, tr3) \<Rightarrow> (Inr (n_exported, elapsed), tr3)))"

section \<open>Scenarios\<close>

text \<open>
  Concrete clients, servers and parsers, on which the theorems below are evaluated. A
  parser is given by the bodies it is asked to parse in the scenario and rejects any
  other text.
\<close>

definition demo_bot :: bot where
  "demo_bot = \<lparr>base = ''http://localhost:8080'', auth = (''Admin'', ''admin''), ssl_verify = True\<rparr>"

definition no_xml :: "string \<Rightarrow> error + element" where
  "no_xml s = Inl (LibraryError ''ParseError'')"

definition no_json :: "string \<Rightarrow> error + json" where
  "no_json s = Inl (LibraryError ''JSONDecodeError'')"

text \<open>A patient without a study binding: reads find nothing, a create is accepted.\<close>

definition unbound_env :: env where
  "unbound_env =
     \<lparr>server = (\<lambda>h req.
         if req_method req = POST
         then Inr \<lparr>status_code = 201,
                   headers = [(''location'', ''http://localhost:8080/rest/wikis/xwiki/spaces/data/pages/P0000001/objects/PhenoTips.StudyBindingClass/0'')],
                   resp_text = []\<rparr>
         else Inr \<lparr>status_code = 404, headers = [(''content-type'', ''text/plain'')],
                   resp_text = []\<rparr>),
      fromstring = no_xml,
      json_loads = no_json\<rparr>"

text \<open>A patient bound to the study \<^verbatim>\<open>Cohort1\<close>.\<close>

definition bound_body :: string where
  "bound_body = ''<object xmlns=\"http://www.xwiki.org\"><property name=\"studyReference\"><value>xwiki:Studies.Cohort1</value></property></object>''"

definition bound_env :: env where
  "bound_env =
     \<lparr>server = (\<lambda>h req.
         if req_method req = GET
         then Inr \<lparr>status_code = 200, headers = [(''content-type'', ''application/xml'')],
                   resp_text = bound_body\<rparr>
         else Inr \<lparr>status_code = 204, headers = [], resp_text = []\<rparr>),
      fromstring = (\<lambda>s.
         if s = bound_body
         then Inr (Element ''{http://www.xwiki.org}object'' [] None
                [Element ''{http://www.xwiki.org}property'' [(''name'', ''studyReference'')] None
                   [Element ''{http://www.xwiki.org}value'' [] (Some ''xwiki:Studies.Cohort1'') []]])
         else no_xml s),
      json_loads = no_json\<rparr>"

text \<open>A patient whose study binding holds a reference without the wiki prefix.\<close>

definition relative_body :: string where
  "relative_body = ''<object xmlns=\"http://www.xwiki.org\"><property name=\"studyReference\"><value>Studies.Cohort1</value></property></object>''"

definition relative_env :: env where
  "relative_env =
     \<lparr>server = (\<lambda>h req.
         Inr \<lparr>status_code = 200, headers = [(''content-type'', ''application/xml'')],
              resp_text = relative_body\<rparr>),
      fromstring = (\<lambda>s.
         if s = relative_body
         then Inr (Element ''{http://www.xwiki.org}object'' [] None
                [Element ''{http://www.xwiki.org}property'' [(''name'', ''studyReference'')] None
                   [Element ''{http://www.xwiki.org}value'' [] (Some ''Studies.Cohort1'') []]])
         else no_xml s),
      json_loads = no_json\<rparr>"

text \<open>Answers to an identifier lookup: one match, several matches, a page, a failure.\<close>

definition one_id_body :: string where
  "one_id_body = ''{\"id\": \"P0000001\"}''"

definition one_id_json :: "string \<Rightarrow> error + json" where
  "one_id_json s = (if s = one_id_body then Inr (JObj [(''id'', JStr ''P0000001'')]) else no_json s)"

definition one_id_env :: env where
  "one_id_env =
     \<lparr>server = (\<lambda>h req.
         Inr \<lparr>status_code = 200, headers = [(''content-type'', ''application/json;charset=UTF-8'')],
              resp_text = one_id_body\<rparr>),
      fromstring = no_xml,
      json_loads = one_id_json\<rparr>"

definition many_ids_body :: string where
  "many_ids_body = ''<patients xmlns=\"http://www.xwiki.org\"><alternatives><patient><id>P0000001</id></patient><patient><id>P0000002</id></patient></alternatives></patients>''"

definition many_ids_root :: element where
  "many_ids_root =
     Element ''{http://www.xwiki.org}patients'' [] None
       [Element ''{http://www.xwiki.org}alternatives'' [] None
          [Element ''{http://www.xwiki.org}patient'' [] None
             [Element ''{http://www.xwiki.org}id'' [] (Some ''P0000001'') []],
           Element ''{http://www.xwiki.org}patient'' [] None
             [Element ''{http://www.xwiki.org}id'' [] (Some ''P0000002'') []]]]"

definition many_ids_env :: env where
  "many_ids_env =
     \<lparr>server = (\<lambda>h req.
         Inr \<lparr>status_code = 200, headers = [(''content-type'', ''application/xml'')],
              resp_text = many_ids_body\<rparr>),
      fromstring = (\<lambda>s. if s = many_ids_body then Inr many_ids_root else no_xml s),
      json_loads = no_json\<rparr>"

definition page_env :: env where
  "page_env =
     \<lparr>server = (\<lambda>h req.
         Inr \<lparr>status_code = 200, headers = [(''content-type'', ''text/html'')],
              resp_text = ''<html></html>''\<rparr>),
      fromstring = no_xml,
      json_loads = no_json\<rparr>"

definition failing_env :: env where
  "failing_env =
     \<lparr>server = (\<lambda>h req.
         Inr \<lparr>status_code = 500, headers = [(''content-type'', ''application/json'')],
              resp_text = one_id_body\<rparr>),
      fromstring = no_xml,
      json_loads = one_id_json\<rparr>"

section \<open>Describing a run of the exporter\<close>

text \<open>
  The two requests the exporter makes through the client, as \<open>list_class_properties\<close>
  and \<open>get_object\<close> build them.
\<close>

definition class_request :: "bot \<Rightarrow> request" where
  "class_request bt =
     mk_request GET bt (base bt @ ''/rest/wikis/xwiki/classes/'' @ ''PhenoTips.PatientClass'') []"

definition patient_request :: "bot \<Rightarrow> string \<Rightarrow> request" where
  "patient_request bt patient_id =
     mk_request GET bt
       (base bt @ ''/rest/wikis/xwiki/spaces/data/pages/'' @ patient_id @ ''/objects/''
          @ ''PhenoTips.PatientClass'' @ ''/'' @ ''0'') []"

text \<open>
  What \<open>list_patient_class_properties\<close> and \<open>get\<close> return when the server has
  received the requests \<open>h\<close> so far.
\<close>

definition schema_result :: "env \<Rightarrow> bot \<Rightarrow> request list \<Rightarrow> error + (string \<times> prop_desc) list" where
  "schema_result e bt h = fst (list_patient_class_properties e bt (map Request h))"

definition fetch_result ::
  "env \<Rightarrow> bot \<Rightarrow> request list \<Rightarrow> string \<Rightarrow> error + (string \<times> string option) list" where
  "fetch_result e bt h patient_id = fst (get e bt patient_id (map Request h))"

text \<open>
  The requests the server has received when the exporter, started on the trace \<open>tr\<close>,
  fetches the patient at index \<open>i\<close>: those of \<open>tr\<close>, the schema request, and the
  fetches of the patients before \<open>i\<close>.
\<close>

definition history :: "bot \<Rightarrow> event list \<Rightarrow> string list \<Rightarrow> nat \<Rightarrow> request list" where
  "history bt tr patient_ids i =
     requests_of tr @ class_request bt # map (patient_request bt) (take i patient_ids)"

text \<open>The events of the first \<open>k\<close> passes of the loop, each of which wrote its row.\<close>

definition export_steps ::
  "bot \<Rightarrow> nat \<Rightarrow> string list \<Rightarrow> string option list list \<Rightarrow> nat \<Rightarrow> event list" where
  "export_steps bt c patient_ids rows k =
     concat (map (\<lambda>i. [Progress (c + i), Request (patient_request bt (patient_ids ! i)),
                        WriteRow (rows ! i)]) [0..<k])"

text \<open>A trace without its rows: the callback invocations and the requests, in order.\<close>

fun calls_of :: "event list \<Rightarrow> event list" where
  "calls_of [] = []"
| "calls_of (WriteRow row # tr) = calls_of tr"
| "calls_of (ev # tr) = ev # calls_of tr"

text \<open>
  A server with the patient class of two properties and three patients; the third
  patient's object lacks the second property. Any other page is not found.
\<close>

definition schema_body :: string where
  "schema_body = ''<class xmlns=\"http://www.xwiki.org\"><property name=\"first_name\" type=\"String\"/><property name=\"last_name\" type=\"String\"/></class>''"

definition schema_root :: element where
  "schema_root =
     Element ''{http://www.xwiki.org}class'' [] None
       [Element ''{http://www.xwiki.org}property''
          [(''name'', ''first_name''), (''type'', ''String'')] None [],
        Element ''{http://www.xwiki.org}property''
          [(''name'', ''last_name''), (''type'', ''String'')] None []]"

definition ann_body :: string where
  "ann_body = ''<object xmlns=\"http://www.xwiki.org\"><property name=\"first_name\"><value>Ann</value></property><property name=\"last_name\"><value>Lee</value></property></object>''"

definition bo_body :: string where
  "bo_body = ''<object xmlns=\"http://www.xwiki.org\"><property name=\"first_name\"><value>Bo</value></property><property name=\"last_name\"><value>Smith</value></property></object>''"

definition cy_body :: string where
  "cy_body = ''<object xmlns=\"http://www.xwiki.org\"><property name=\"first_name\"><value>Cy</value></property></object>''"

definition patient_root :: "(string \<times> string) list \<Rightarrow> element" where
  "patient_root props =
     Element ''{http://www.xwiki.org}object'' [] None
       (map (\<lambda>(k, v). Element ''{http://www.xwiki.org}property'' [(''name'', k)] None
                          [Element ''{http://www.xwiki.org}value'' [] (Some v) []]) props)"

definition ok_xml :: "string \<Rightarrow> response" where
  "ok_xml body =
     \<lparr>status_code = 200, headers = [(''content-type'', ''application/xml'')], resp_text = body\<rparr>"

definition export_env :: env where
  "export_env =
     \<lparr>server = (\<lambda>h req.
         if req_url req = ''http://localhost:8080/rest/wikis/xwiki/classes/PhenoTips.PatientClass''
         then Inr (ok_xml schema_body)
         else if req_url req = ''http://localhost:8080/rest/wikis/xwiki/spaces/data/pages/P0000001/objects/PhenoTips.PatientClass/0''
         then Inr (ok_xml ann_body)
         else if req_url req = ''http://localhost:8080/rest/wikis/xwiki/spaces/data/pages/P0000002/objects/PhenoTips.PatientClass/0''
         then Inr (ok_xml bo_body)
         else if req_url req = ''http://localhost:8080/rest/wikis/xwiki/spaces/data/pages/P0000003/objects/PhenoTips.PatientClass/0''
         then Inr (ok_xml cy_body)
         else Inr \<lparr>status_code = 404, headers = [(''content-type'', ''text/plain'')],
                   resp_text = []\<rparr>),
      fromstring = (\<lambda>s.
         if s = schema_body then Inr schema_root
         else if s = ann_body
         then Inr (patient_root [(''first_name'', ''Ann''), (''last_name'', ''Lee'')])
         else if s = bo_body
         then Inr (patient_root [(''first_name'', ''Bo''), (''last_name'', ''Smith'')])
         else if s = cy_body then Inr (patient_root [(''first_name'', ''Cy'')])
         else no_xml s),
      json_loads = no_json\<rparr>"

section \<open>Properties of qualify and unqualify\<close>

lemma qualify_has_dot: "pagename \<noteq> [] \<Longrightarrow> CHR ''.'' \<in> set (qualify pagename namespace)"
  by (simp add: qualify_def Let_def)

lemma qualify_has_colon: "pagename \<noteq> [] \<Longrightarrow> CHR '':'' \<in> set (qualify pagename namespace)"
  by (simp add: qualify_def Let_def)

lemma qualify_fixed:
  "CHR ''.'' \<in> set p \<Longrightarrow> CHR '':'' \<in> set p \<Longrightarrow> qualify p namespace = p"
  by (auto simp add: qualify_def Let_def)

text \<open>
  C9. For every name \<open>n\<close> and namespace \<open>ns\<close>, qualify is idempotent:
  \<open>qualify (qualify n ns) ns = qualify n ns\<close>.
\<close>

theorem qualify_idempotent: "qualify (qualify n ns) ns = qualify n ns"
proof (cases "n = []")
  case True
  then show ?thesis by (simp add: qualify_def)
next
  case False
  then show ?thesis
    by (intro qualify_fixed qualify_has_dot qualify_has_colon)
qed

text \<open>
  C3, as stated: for every non-empty bare name \<open>n\<close> (no dot, no colon) and every
  namespace \<open>ns\<close>, \<open>unqualify (qualify n ns) ns\<close> is \<open>n\<close>. This fails for a namespace
  that contains a colon: \<open>qualify\<close> looks for the colon in the whole string
  \<open>ns.n\<close>, finds the namespace's, and adds no \<open>xwiki:\<close> prefix; \<open>unqualify\<close> then
  matches neither prefix and returns \<open>None\<close>.
\<close>

theorem unqualify_qualify_colon_namespace_counterexample:
  "''x'' \<noteq> [] \<and> CHR ''.'' \<notin> set ''x'' \<and> CHR '':'' \<notin> set ''x''
   \<and> qualify ''x'' ''a:b'' = ''a:b.x''
   \<and> unqualify (qualify ''x'' ''a:b'') ''a:b'' = None
   \<and> unqualify (qualify ''x'' ''a:b'') ''a:b'' \<noteq> Some ''x''"
  by (simp add: qualify_def unqualify_def startswith_def)

text \<open>
  C3, amended: for every non-empty bare name \<open>n\<close> (no dot, no colon) and every
  namespace \<open>ns\<close> that contains no colon, \<open>unqualify (qualify n ns) ns\<close> returns \<open>n\<close>.
\<close>

theorem unqualify_qualify_roundtrip:
  assumes "n \<noteq> []" and "CHR ''.'' \<notin> set n" and "CHR '':'' \<notin> set n"
    and "CHR '':'' \<notin> set ns"
  shows "unqualify (qualify n ns) ns = Some n"
proof -
  have q: "qualify n ns = ''xwiki:'' @ ns @ ''.'' @ n"
    using assms by (simp add: qualify_def Let_def)
  show ?thesis
    unfolding q by (simp add: unqualify_def startswith_def)
qed

theorem unqualify_qualify_roundtrip_witness:
  "unqualify (qualify ''Admin'' ''XWiki'') ''XWiki'' = Some ''Admin''"
  using unqualify_qualify_roundtrip [of "''Admin''" "''XWiki''"] by simp

section \<open>Projections of a trace\<close>

lemma requests_of_append: "requests_of (a @ b) = requests_of a @ requests_of b"
  by (induction a rule: requests_of.induct) simp_all

lemma progress_of_append: "progress_of (a @ b) = progress_of a @ progress_of b"
  by (induction a rule: progress_of.induct) simp_all

lemma rows_of_append: "rows_of (a @ b) = rows_of a @ rows_of b"
  by (induction a rule: rows_of.induct) simp_all

lemma calls_of_append: "calls_of (a @ b) = calls_of a @ calls_of b"
  by (induction a rule: calls_of.induct) simp_all

lemma requests_of_map_Request: "requests_of (map Request h) = h"
  by (induction h) simp_all

section \<open>Sub-object deletion\<close>

text \<open>
  C7. The claim: \<open>delete_object\<close>, and with it \<open>delete_collaborator\<close>,
  \<open>delete_relative\<close> and \<open>delete_vcf\<close>, issues an HTTP DELETE to the URL of the
  sub-object and returns normally when the server answers with a success status. The
  code does not: on every input, and whatever the server would answer, each of the four
  raises \<^verbatim>\<open>NameError\<close> for the undefined name \<^verbatim>\<open>relative_num\<close> and issues no request
  (the trace is unchanged).
\<close>

theorem delete_object_name_error:
  "delete_object e self patient_id object_class object_num tr
     = (Inl (NameError ''relative_num''), tr)
   \<and> delete_collaborator e self patient_id object_num tr = (Inl (NameError ''relative_num''), tr)
   \<and> delete_relative e self patient_id object_num tr = (Inl (NameError ''relative_num''), tr)
   \<and> delete_vcf e self patient_id object_num tr = (Inl (NameError ''relative_num''), tr)"
  by (simp add: delete_object_def delete_collaborator_def delete_relative_def delete_vcf_def)

section \<open>Owner\<close>

text \<open>
  C8. The claim: \<open>set_owner\<close> writes the qualified form of an unqualified owner name
  as the value of the \<open>owner\<close> property. The code computes the qualified name and
  then writes the name it was given: for the owner \<^verbatim>\<open>Admin\<close> the one request issued
  is a PUT whose form data holds \<^verbatim>\<open>Admin\<close>, while the qualified form is
  \<^verbatim>\<open>xwiki:XWiki.Admin\<close>.
\<close>

theorem set_owner_writes_unqualified:
  "snd (set_owner e self ''P0000001'' ''Admin'' [])
     = [Request (mk_request PUT self
          (base self @ ''/rest/wikis/xwiki/spaces/data/pages/P0000001/objects/PhenoTips.OwnerClass/0'')
          [(''property#owner'', ''Admin'')])]
   \<and> qualify ''Admin'' ''XWiki'' = ''xwiki:XWiki.Admin''"
  by (simp add: set_owner_def set_object_def send_def Let_def qualify_def split: sum.splits)

text \<open>
  The other half of C8 holds: \<open>get_owner\<close> returns what \<open>unqualify\<close> makes of the
  stored value, so a stored \<^verbatim>\<open>xwiki:XWiki.Name\<close> comes back as \<^verbatim>\<open>Name\<close>.
\<close>

lemma get_owner_unqualifies:
  assumes "get_object e self patient_id ''PhenoTips.OwnerClass'' ''0'' tr = (Inr obj, tr1)"
    and "map_of obj ''owner'' = Some (Some v)"
  shows "get_owner e self patient_id tr = (Inr (unqualify v ''XWiki''), tr1)"
  using assms by (simp add: get_owner_def)

lemma unqualify_qualified: "unqualify (''xwiki:'' @ ns @ ''.'' @ n) ns = Some n"
  by (simp add: unqualify_def startswith_def)

section \<open>Study binding\<close>

text \<open>
  C4. Let \<open>r\<close> be the answer to the existence check, the GET of the patient's
  \<^verbatim>\<open>PhenoTips.StudyBindingClass/0\<close> object. If \<open>r\<close> is a 404, \<open>set_study\<close> with no
  study issues nothing but that GET (no POST, PUT or DELETE) and returns, and
  \<open>set_study\<close> with a study issues, after the GET, one POST to the patient's
  \<open>objects\<close> URL that creates a \<^verbatim>\<open>PhenoTips.StudyBindingClass\<close> object holding the
  qualified study. If \<open>r\<close> says the binding exists (its status passes
  \<open>raise_for_status\<close>), \<open>set_study\<close> with a study issues, after the GET, one PUT to the
  object's URL and no POST, and \<open>set_study\<close> with no study issues one DELETE to the
  object's URL.
\<close>

theorem set_study_requests:
  assumes "server e (requests_of tr) (mk_request GET self
             (base self @ ''/rest/wikis/xwiki/spaces/data/pages/'' @ patient_id
                @ ''/objects/PhenoTips.StudyBindingClass/0'') []) = Inr r"
  shows "(status_code r = 404 \<longrightarrow>
            set_study e self patient_id None tr
              = (Inr (), tr @ [Request (mk_request GET self
                   (base self @ ''/rest/wikis/xwiki/spaces/data/pages/'' @ patient_id
                      @ ''/objects/PhenoTips.StudyBindingClass/0'') [])]))
       \<and> (status_code r = 404 \<longrightarrow>
            snd (set_study e self patient_id (Some s) tr)
              = tr @ [Request (mk_request GET self
                   (base self @ ''/rest/wikis/xwiki/spaces/data/pages/'' @ patient_id
                      @ ''/objects/PhenoTips.StudyBindingClass/0'') []),
                      Request (mk_request POST self
                   (base self @ ''/rest/wikis/xwiki/spaces/data/pages/'' @ patient_id @ ''/objects'')
                   [(''className'', ''PhenoTips.StudyBindingClass''),
                    (''property#studyReference'', qualify s ''Studies'')])])
       \<and> (raise_for_status r = Inr () \<longrightarrow>
            snd (set_study e self patient_id (Some s) tr)
              = tr @ [Request (mk_request GET self
                   (base self @ ''/rest/wikis/xwiki/spaces/data/pages/'' @ patient_id
                      @ ''/objects/PhenoTips.StudyBindingClass/0'') []),
                      Request (mk_request PUT self
                   (base self @ ''/rest/wikis/xwiki/spaces/data/pages/'' @ patient_id
                      @ ''/objects/PhenoTips.StudyBindingClass/0'')
                   [(''property#studyReference'', qualify s ''Studies'')])])
       \<and> (raise_for_status r = Inr () \<longrightarrow>
            snd (set_study e self patient_id None tr)
              = tr @ [Request (mk_request GET self
                   (base self @ ''/rest/wikis/xwiki/spaces/data/pages/'' @ patient_id
                      @ ''/objects/PhenoTips.StudyBindingClass/0'') []),
                      Request (mk_request DELETE self
                   (base self @ ''/rest/wikis/xwiki/spaces/data/pages/'' @ patient_id
                      @ ''/objects/PhenoTips.StudyBindingClass/0'') [])])"
  using assms
  by (auto simp add: set_study_def create_object_def send_def Let_def raise_for_status_def
        split: sum.splits option.splits if_splits prod.splits)

theorem set_study_requests_witness:
  "set_study unbound_env demo_bot ''P0000001'' None []
     = (Inr (), [Request (mk_request GET demo_bot
          ''http://localhost:8080/rest/wikis/xwiki/spaces/data/pages/P0000001/objects/PhenoTips.StudyBindingClass/0'' [])])
   \<and> snd (set_study unbound_env demo_bot ''P0000001'' (Some ''Cohort1'') [])
     = [Request (mk_request GET demo_bot
          ''http://localhost:8080/rest/wikis/xwiki/spaces/data/pages/P0000001/objects/PhenoTips.StudyBindingClass/0'' []),
        Request (mk_request POST demo_bot
          ''http://localhost:8080/rest/wikis/xwiki/spaces/data/pages/P0000001/objects''
          [(''className'', ''PhenoTips.StudyBindingClass''),
           (''property#studyReference'', ''xwiki:Studies.Cohort1'')])]
   \<and> snd (set_study bound_env demo_bot ''P0000001'' (Some ''Cohort2'') [])
     = [Request (mk_request GET demo_bot
          ''http://localhost:8080/rest/wikis/xwiki/spaces/data/pages/P0000001/objects/PhenoTips.StudyBindingClass/0'' []),
        Request (mk_request PUT demo_bot
          ''http://localhost:8080/rest/wikis/xwiki/spaces/data/pages/P0000001/objects/PhenoTips.StudyBindingClass/0''
          [(''property#studyReference'', ''xwiki:Studies.Cohort2'')])]
   \<and> snd (set_study bound_env demo_bot ''P0000001'' None [])
     = [Request (mk_request GET demo_bot
          ''http://localhost:8080/rest/wikis/xwiki/spaces/data/pages/P0000001/objects/PhenoTips.StudyBindingClass/0'' []),
        Request (mk_request DELETE demo_bot
          ''http://localhost:8080/rest/wikis/xwiki/spaces/data/pages/P0000001/objects/PhenoTips.StudyBindingClass/0'' [])]"
proof -
  let ?u = "base demo_bot @ ''/rest/wikis/xwiki/spaces/data/pages/'' @ ''P0000001''
              @ ''/objects/PhenoTips.StudyBindingClass/0''"
  let ?r404 = "\<lparr>status_code = 404, headers = [(''content-type'', ''text/plain'')], resp_text = []\<rparr>"
  let ?r200 = "\<lparr>status_code = 200, headers = [(''content-type'', ''application/xml'')],
                resp_text = bound_body\<rparr>"
  have a: "server unbound_env (requests_of []) (mk_request GET demo_bot ?u []) = Inr ?r404"
    by (simp add: unbound_env_def mk_request_def)
  have b: "server bound_env (requests_of []) (mk_request GET demo_bot ?u []) = Inr ?r200"
    by (simp add: bound_env_def mk_request_def)
  have q1: "qualify ''Cohort1'' ''Studies'' = ''xwiki:Studies.Cohort1''"
    by (simp add: qualify_def)
  have q2: "qualify ''Cohort2'' ''Studies'' = ''xwiki:Studies.Cohort2''"
    by (simp add: qualify_def)
  show ?thesis
    using set_study_requests [OF a, of "''Cohort1''"] set_study_requests [OF b, of "''Cohort2''"]
    by (simp add: raise_for_status_def demo_bot_def q1 q2)
qed

text \<open>
  In the deleting branch the answer to the DELETE is not looked at: \<open>set_study\<close>
  returns normally whatever its status.
\<close>

lemma set_study_delete_unchecked:
  assumes "server e (requests_of tr) (mk_request GET self
             (base self @ ''/rest/wikis/xwiki/spaces/data/pages/'' @ patient_id
                @ ''/objects/PhenoTips.StudyBindingClass/0'') []) = Inr r"
    and "raise_for_status r = Inr ()"
    and "server e (requests_of tr @ [mk_request GET self
             (base self @ ''/rest/wikis/xwiki/spaces/data/pages/'' @ patient_id
                @ ''/objects/PhenoTips.StudyBindingClass/0'') []])
           (mk_request DELETE self
             (base self @ ''/rest/wikis/xwiki/spaces/data/pages/'' @ patient_id
                @ ''/objects/PhenoTips.StudyBindingClass/0'') []) = Inr r2"
  shows "fst (set_study e self patient_id None tr) = Inr ()"
  using assms
  by (auto simp add: set_study_def send_def Let_def raise_for_status_def requests_of_append
        split: if_splits)

text \<open>
  What \<open>get_study\<close> returns, by the answer \<open>r\<close> to its request: \<^verbatim>\<open>None\<close> for a 404;
  for a status that passes \<open>raise_for_status\<close> and a body whose \<open>studyReference\<close>
  value element is \<open>el\<close>, the empty string when \<open>el\<close> has no text, and otherwise what
  \<open>unqualify\<close> makes of the text.
\<close>

lemma get_study_cases:
  assumes "server e (requests_of tr) (mk_request GET self
             (base self @ ''/rest/wikis/xwiki/spaces/data/pages/'' @ patient_id
                @ ''/objects/PhenoTips.StudyBindingClass/0'') []) = Inr r"
  shows "(status_code r = 404 \<longrightarrow> fst (get_study e self patient_id tr) = Inr None)
       \<and> (raise_for_status r = Inr () \<and> fromstring e (resp_text r) = Inr root
            \<and> first_match (concat (map (children_tagged ''{http://www.xwiki.org}value'')
                 (having_attr ''name'' ''studyReference''
                    (children_tagged ''{http://www.xwiki.org}property'' root)))) = Some el \<longrightarrow>
            fst (get_study e self patient_id tr)
              = Inr (if el_text el = None \<or> el_text el = Some [] then Some []
                     else unqualify (the (el_text el)) ''Studies''))"
  using assms
  by (auto simp add: get_study_def send_def Let_def raise_for_status_def
        split: if_splits option.splits)

text \<open>
  C10. The claim: \<open>get_study\<close> returns \<^verbatim>\<open>None\<close> exactly when the server answers 404,
  and the unqualified study name when the binding holds a non-empty reference. The code
  returns \<^verbatim>\<open>None\<close> for a 200 as well: the stored reference \<^verbatim>\<open>Studies.Cohort1\<close> is not
  empty and does not start with \<^verbatim>\<open>xwiki:\<close>, \<open>unqualify\<close> falls off its end, and
  \<open>get_study\<close> hands its \<^verbatim>\<open>None\<close> on.
\<close>

theorem get_study_none_without_404:
  "server relative_env [] (mk_request GET demo_bot
       ''http://localhost:8080/rest/wikis/xwiki/spaces/data/pages/P0000001/objects/PhenoTips.StudyBindingClass/0'' [])
     = Inr \<lparr>status_code = 200, headers = [(''content-type'', ''application/xml'')],
            resp_text = relative_body\<rparr>
   \<and> unqualify ''Studies.Cohort1'' ''Studies'' = None
   \<and> fst (get_study relative_env demo_bot ''P0000001'' []) = Inr None"
  by (simp add: get_study_def relative_env_def demo_bot_def send_def mk_request_def
        raise_for_status_def Let_def children_tagged_def having_attr_def first_match_def
        unqualify_def startswith_def)

section \<open>Identifier lookup\<close>

text \<open>The first piece of a split is what precedes the first separator.\<close>

lemma split_on_head: "\<exists>ws. split_on c s = takeWhile (\<lambda>x. x \<noteq> c) s # ws"
  by (induction s) (auto split: list.splits)

text \<open>
  C5, as stated: \<open>get_id\<close> returns the \<open>id\<close> field whenever the content type of
  the response is \<^verbatim>\<open>application/json\<close>, and raises a type error for any content type
  other than JSON and XML. Between the test for 404 and the look at the content type
  the code calls \<open>raise_for_status\<close>: a response with status 500, content type
  \<^verbatim>\<open>application/json\<close> and a body with an \<open>id\<close> field makes \<open>get_id\<close> raise the
  HTTP error, and no identifier is returned.
\<close>

theorem get_id_error_status_counterexample:
  "server failing_env [] (mk_request GET demo_bot ''http://localhost:8080/rest/patients/eid/E1'' [])
     = Inr \<lparr>status_code = 500, headers = [(''content-type'', ''application/json'')],
            resp_text = one_id_body\<rparr>
   \<and> json_loads failing_env one_id_body = Inr (JObj [(''id'', JStr ''P0000001'')])
   \<and> fst (get_id failing_env demo_bot ''E1'' []) = Inl (HTTPError 500)
   \<and> fst (get_id failing_env demo_bot ''E1'' []) \<noteq> Inr (OneId (JStr ''P0000001''))"
  by (simp add: get_id_def failing_env_def one_id_json_def demo_bot_def send_def mk_request_def
        raise_for_status_def Let_def)

text \<open>
  C5, amended. Let \<open>r\<close> be the server's answer and \<open>h\<close> its content type header,
  read up to the first semicolon. \<open>get_id\<close> returns \<^verbatim>\<open>None\<close> when the status is 404
  and raises the HTTP error for any other 4xx or 5xx status, whatever the content type.
  For a status that is not an error it returns the \<open>id\<close> field of the JSON object in
  the body when the content type is \<^verbatim>\<open>application/json\<close>, the list of the texts of the
  \<^verbatim>\<open>alternatives/patient/id\<close> elements of the body when it is \<^verbatim>\<open>application/xml\<close>, and
  raises a type error for any other content type.
\<close>

theorem get_id_dispatch:
  assumes "server e (requests_of tr)
             (mk_request GET self (base self @ ''/rest/patients/eid/'' @ external_id) []) = Inr r"
  shows "(status_code r = 404 \<longrightarrow> fst (get_id e self external_id tr) = Inr NoId)
       \<and> (status_code r \<noteq> 404 \<and> 400 \<le> status_code r \<and> status_code r < 600 \<longrightarrow>
            fst (get_id e self external_id tr) = Inl (HTTPError (status_code r)))
       \<and> (\<not> (400 \<le> status_code r \<and> status_code r < 600)
            \<and> map_of (headers r) ''content-type'' = Some h
            \<and> takeWhile (\<lambda>c. c \<noteq> CHR '';'') h = ''application/json''
            \<and> json_loads e (resp_text r) = Inr (JObj kvs) \<and> map_of kvs ''id'' = Some v \<longrightarrow>
            fst (get_id e self external_id tr) = Inr (OneId v))
       \<and> (\<not> (400 \<le> status_code r \<and> status_code r < 600)
            \<and> map_of (headers r) ''content-type'' = Some h
            \<and> takeWhile (\<lambda>c. c \<noteq> CHR '';'') h = ''application/xml''
            \<and> fromstring e (resp_text r) = Inr root \<longrightarrow>
            fst (get_id e self external_id tr)
              = Inr (IdList (map el_text
                  (findall [''{http://www.xwiki.org}alternatives'', ''{http://www.xwiki.org}patient'',
                            ''{http://www.xwiki.org}id''] root))))
       \<and> (\<not> (400 \<le> status_code r \<and> status_code r < 600)
            \<and> map_of (headers r) ''content-type'' = Some h
            \<and> takeWhile (\<lambda>c. c \<noteq> CHR '';'') h \<noteq> ''application/json''
            \<and> takeWhile (\<lambda>c. c \<noteq> CHR '';'') h \<noteq> ''application/xml'' \<longrightarrow>
            fst (get_id e self external_id tr) = Inl (TypeError ''Expected JSON or XML''))"
proof -
  obtain ws where sp: "split_on CHR '';'' h = takeWhile (\<lambda>x. x \<noteq> CHR '';'') h # ws"
    using split_on_head by blast
  show ?thesis
    using assms sp
    by (simp add: get_id_def send_def Let_def raise_for_status_def json_subscript_def)
qed

theorem get_id_dispatch_witness:
  "fst (get_id unbound_env demo_bot ''E1'' []) = Inr NoId
   \<and> fst (get_id failing_env demo_bot ''E1'' []) = Inl (HTTPError 500)
   \<and> fst (get_id one_id_env demo_bot ''E1'' []) = Inr (OneId (JStr ''P0000001''))
   \<and> fst (get_id many_ids_env demo_bot ''E1'' [])
        = Inr (IdList [Some ''P0000001'', Some ''P0000002''])
   \<and> fst (get_id page_env demo_bot ''E1'' []) = Inl (TypeError ''Expected JSON or XML'')"
proof -
  let ?q = "mk_request GET demo_bot (base demo_bot @ ''/rest/patients/eid/'' @ ''E1'') []"
  have a: "server unbound_env (requests_of []) ?q
             = Inr \<lparr>status_code = 404, headers = [(''content-type'', ''text/plain'')],
                    resp_text = []\<rparr>"
    by (simp add: unbound_env_def mk_request_def)
  have b: "server failing_env (requests_of []) ?q
             = Inr \<lparr>status_code = 500, headers = [(''content-type'', ''application/json'')],
                    resp_text = one_id_body\<rparr>"
    by (simp add: failing_env_def)
  have c: "server one_id_env (requests_of []) ?q
             = Inr \<lparr>status_code = 200,
                    headers = [(''content-type'', ''application/json;charset=UTF-8'')],
                    resp_text = one_id_body\<rparr>"
    by (simp add: one_id_env_def)
  have d: "server many_ids_env (requests_of []) ?q
             = Inr \<lparr>status_code = 200, headers = [(''content-type'', ''application/xml'')],
                    resp_text = many_ids_body\<rparr>"
    by (simp add: many_ids_env_def)
  have f: "server page_env (requests_of []) ?q
             = Inr \<lparr>status_code = 200, headers = [(''content-type'', ''text/html'')],
                    resp_text = ''<html></html>''\<rparr>"
    by (simp add: page_env_def)
  have c1: "fst (get_id one_id_env demo_bot ''E1'' []) = Inr (OneId (JStr ''P0000001''))"
    using get_id_dispatch [OF c, of "''application/json;charset=UTF-8''"
        "[(''id'', JStr ''P0000001'')]" "JStr ''P0000001''"]
    by (simp add: one_id_env_def one_id_json_def)
  have d1: "fst (get_id many_ids_env demo_bot ''E1'' [])
              = Inr (IdList [Some ''P0000001'', Some ''P0000002''])"
    using get_id_dispatch [OF d, of "''application/xml''" _ _ many_ids_root]
    by (simp add: many_ids_env_def many_ids_root_def children_tagged_def)
  have f1: "fst (get_id page_env demo_bot ''E1'' []) = Inl (TypeError ''Expected JSON or XML'')"
    using get_id_dispatch [OF f, of "''text/html''"] by simp
  show ?thesis
    using get_id_dispatch [OF a] get_id_dispatch [OF b] c1 d1 f1 by simp
qed

section \<open>Requests and rows of the exporter\<close>

lemma get_eq:
  "get e bt patient_id tr
     = (fetch_result e bt (requests_of tr) patient_id, tr @ [Request (patient_request bt patient_id)])"
  by (simp add: get_def get_object_def fetch_result_def send_def patient_request_def Let_def
        requests_of_map_Request split: sum.splits)

lemma list_patient_class_properties_eq:
  "list_patient_class_properties e bt tr
     = (schema_result e bt (requests_of tr), tr @ [Request (class_request bt)])"
  by (simp add: list_patient_class_properties_def list_class_properties_def schema_result_def
        send_def class_request_def Let_def requests_of_map_Request split: sum.splits)

lemma make_row_Inr:
  "make_row prop_names patient acc = Inr row
     \<longleftrightarrow> (\<exists>r. row = acc @ r \<and> map (map_of patient) prop_names = map Some r)"
proof (induction prop_names arbitrary: acc)
  case Nil
  then show ?case by auto
next
  case (Cons p ps)
  show ?case
  proof (cases "map_of patient p")
    case None
    then show ?thesis by auto
  next
    case (Some v)
    have "(\<exists>r. row = (acc @ [v]) @ r \<and> map (map_of patient) ps = map Some r)
            \<longleftrightarrow> (\<exists>r. row = acc @ r \<and> map (map_of patient) (p # ps) = map Some r)"
      (is "?L \<longleftrightarrow> ?R")
    proof
      assume ?L
      then obtain r where "row = (acc @ [v]) @ r" "map (map_of patient) ps = map Some r" by blast
      then have "row = acc @ (v # r) \<and> map (map_of patient) (p # ps) = map Some (v # r)"
        using Some by simp
      then show ?R by blast
    next
      assume ?R
      then obtain r where r: "row = acc @ r" "map (map_of patient) (p # ps) = map Some r" by blast
      then obtain r' where "r = v # r'" using Some by (cases r) auto
      then show ?L using r by auto
    qed
    then show ?thesis using Some Cons.IH [of "acc @ [v]"] by simp
  qed
qed

lemma make_row_rows:
  "make_row prop_names patient [] = Inr row \<longleftrightarrow> map (map_of patient) prop_names = map Some row"
  by (simp add: make_row_Inr)

lemma make_row_Inl:
  "make_row prop_names patient acc = Inl err
     \<Longrightarrow> \<exists>p\<in>set prop_names. map_of patient p = None \<and> err = KeyError p"
  by (induction prop_names arbitrary: acc) (auto split: option.splits)

lemma make_row_incomplete:
  assumes "p \<in> set prop_names" and "map_of patient p = None"
  shows "\<exists>q\<in>set prop_names. map_of patient q = None
           \<and> make_row prop_names patient [] = Inl (KeyError q)"
proof (cases "make_row prop_names patient []")
  case (Inl err)
  then show ?thesis using make_row_Inl by blast
next
  case (Inr row)
  then have "map (map_of patient) prop_names = map Some row"
    by (simp add: make_row_rows)
  then have "map_of patient p \<in> set (map Some row)"
    using assms(1) by (metis image_eqI set_map)
  then show ?thesis using assms(2) by auto
qed


section \<open>The export loop\<close>

lemma export_steps_Suc:
  "export_steps bt c ids rows (Suc k)
     = export_steps bt c ids rows k
         @ [Progress (c + k), Request (patient_request bt (ids ! k)), WriteRow (rows ! k)]"
  by (simp add: export_steps_def)

lemma export_steps_0: "export_steps bt c ids rows 0 = []"
  by (simp add: export_steps_def)

lemma requests_of_export_steps:
  "k \<le> length ids \<Longrightarrow>
     requests_of (export_steps bt c ids rows k) = map (patient_request bt) (take k ids)"
proof (induction k)
  case 0
  then show ?case by (simp add: export_steps_0)
next
  case (Suc k)
  then show ?case
    by (simp add: export_steps_Suc requests_of_append take_Suc_conv_app_nth)
qed

lemma progress_of_export_steps:
  "progress_of (export_steps bt c ids rows k) = map (\<lambda>i. c + i) [0..<k]"
  by (induction k) (simp_all add: export_steps_0 export_steps_Suc progress_of_append)

lemma rows_of_export_steps:
  "k \<le> length rows \<Longrightarrow> rows_of (export_steps bt c ids rows k) = take k rows"
proof (induction k)
  case 0
  then show ?case by (simp add: export_steps_0)
next
  case (Suc k)
  then show ?case
    by (simp add: export_steps_Suc rows_of_append take_Suc_conv_app_nth)
qed

lemma calls_of_export_steps:
  "calls_of (export_steps bt c ids rows k)
     = concat (map (\<lambda>i. [Progress (c + i), Request (patient_request bt (ids ! i))]) [0..<k])"
  by (induction k) (simp_all add: export_steps_0 export_steps_Suc calls_of_append)

text \<open>One pass of the loop, by what the fetch and the row give.\<close>

lemma export_loop_step_ok:
  assumes "fetch_result e bt (requests_of tr) pid = Inr patient"
    and "make_row keys patient [] = Inr row"
  shows "export_loop e bt keys (pid # rest) c m tr
           = export_loop e bt keys rest (Suc c) (Suc m)
               (tr @ [Progress c, Request (patient_request bt pid), WriteRow row])"
  using assms by (simp add: get_eq requests_of_append Let_def)

lemma export_loop_step_fetch_error:
  assumes "fetch_result e bt (requests_of tr) pid = Inl err"
  shows "export_loop e bt keys (pid # rest) c m tr
           = (Inl err, tr @ [Progress c, Request (patient_request bt pid)])"
  using assms by (simp add: get_eq requests_of_append Let_def)

lemma export_loop_step_row_error:
  assumes "fetch_result e bt (requests_of tr) pid = Inr patient"
    and "make_row keys patient [] = Inl err"
  shows "export_loop e bt keys (pid # rest) c m tr
           = (Inl err, tr @ [Progress c, Request (patient_request bt pid)])"
  using assms by (simp add: get_eq requests_of_append Let_def)

text \<open>The first \<open>k\<close> passes, when each of them fetches a patient and writes its row.\<close>

lemma export_loop_prefix:
  assumes "k \<le> length ids"
    and "\<forall>i<k. \<exists>patient.
           fetch_result e bt (requests_of tr @ map (patient_request bt) (take i ids)) (ids ! i)
             = Inr patient
           \<and> make_row keys patient [] = Inr (rows ! i)"
  shows "export_loop e bt keys ids c m tr
           = export_loop e bt keys (drop k ids) (c + k) (m + k)
               (tr @ export_steps bt c ids rows k)"
  using assms
proof (induction k)
  case 0
  then show ?case by (simp add: export_steps_0)
next
  case (Suc k)
  then have k: "k < length ids" by simp
  from Suc.prems(2) obtain patient where
    f: "fetch_result e bt (requests_of tr @ map (patient_request bt) (take k ids)) (ids ! k)
          = Inr patient"
    and r: "make_row keys patient [] = Inr (rows ! k)"
    by blast
  have ih: "export_loop e bt keys ids c m tr
              = export_loop e bt keys (drop k ids) (c + k) (m + k)
                  (tr @ export_steps bt c ids rows k)"
    using Suc by simp
  have d: "drop k ids = ids ! k # drop (Suc k) ids"
    using k by (simp add: Cons_nth_drop_Suc)
  have rq: "requests_of (tr @ export_steps bt c ids rows k)
              = requests_of tr @ map (patient_request bt) (take k ids)"
    using k by (simp add: requests_of_append requests_of_export_steps)
  show ?case
    unfolding ih d
    using export_loop_step_ok [of e bt "tr @ export_steps bt c ids rows k" "ids ! k" patient keys
        "rows ! k" "drop (Suc k) ids" "c + k" "m + k"] f r rq
    by (simp add: export_steps_Suc)
qed

text \<open>Every run has a longest prefix of passes that wrote their rows.\<close>

lemma export_run_exists:
  "\<exists>k rows. k \<le> n \<and> length rows = k
     \<and> (\<forall>i<k. \<exists>patient. fetch_result e bt (h @ map (patient_request bt) (take i ids)) (ids ! i)
                             = Inr patient
                         \<and> make_row keys patient [] = Inr (rows ! i))
     \<and> (k < n \<longrightarrow> \<not> (\<exists>patient row.
            fetch_result e bt (h @ map (patient_request bt) (take k ids)) (ids ! k) = Inr patient
            \<and> make_row keys patient [] = Inr row))"
proof (induction n)
  case 0
  show ?case by simp
next
  case (Suc n)
  then obtain k rows where kr: "k \<le> n" "length rows = k"
    "\<forall>i<k. \<exists>patient. fetch_result e bt (h @ map (patient_request bt) (take i ids)) (ids ! i)
                         = Inr patient
                     \<and> make_row keys patient [] = Inr (rows ! i)"
    "k < n \<longrightarrow> \<not> (\<exists>patient row.
        fetch_result e bt (h @ map (patient_request bt) (take k ids)) (ids ! k) = Inr patient
        \<and> make_row keys patient [] = Inr row)"
    by blast
  let ?ok = "\<exists>patient row.
        fetch_result e bt (h @ map (patient_request bt) (take k ids)) (ids ! k) = Inr patient
        \<and> make_row keys patient [] = Inr row"
  show ?case
  proof (cases "k = n \<and> ?ok")
    case True
    then obtain patient row where
      pr: "fetch_result e bt (h @ map (patient_request bt) (take k ids)) (ids ! k) = Inr patient"
          "make_row keys patient [] = Inr row"
      by blast
    have "\<forall>i<Suc k. \<exists>patient.
            fetch_result e bt (h @ map (patient_request bt) (take i ids)) (ids ! i) = Inr patient
            \<and> make_row keys patient [] = Inr ((rows @ [row]) ! i)"
      using kr(2,3) pr by (auto simp add: less_Suc_eq nth_append)
    then show ?thesis
      using True kr(2) by (intro exI [of _ "Suc k"] exI [of _ "rows @ [row]"]) simp
  next
    case False
    then show ?thesis
      using kr by (intro exI [of _ k] exI [of _ rows]) auto
  qed
qed


section \<open>Runs of the exporter\<close>

lemma export_patients_schema_error:
  assumes "schema_result e bt (requests_of tr) = Inl err"
  shows "export_patients e bt ids elapsed tr = (Inl err, tr @ [Request (class_request bt)])"
  using assms by (simp add: export_patients_def list_patient_class_properties_eq)

lemma export_patients_prefix:
  assumes "schema_result e bt (requests_of tr) = Inr schema"
    and "k \<le> length ids"
    and "\<forall>i<k. \<exists>patient. fetch_result e bt (history bt tr ids i) (ids ! i) = Inr patient
                         \<and> make_row (map fst schema) patient [] = Inr (rows ! i)"
  shows "export_patients e bt ids elapsed tr
           = (case export_loop e bt (map fst schema) (drop k ids) k k
                     (tr @ [Request (class_request bt), WriteRow (map Some (map fst schema))]
                        @ export_steps bt 0 ids rows k) of
                (Inl err, tr3) \<Rightarrow> (Inl err, tr3)
              | (Inr n_exported, tr3) \<Rightarrow> (Inr (n_exported, elapsed), tr3))"
proof -
  let ?tr2 = "tr @ [Request (class_request bt), WriteRow (map Some (map fst schema))]"
  have h: "\<And>i. requests_of ?tr2 @ map (patient_request bt) (take i ids) = history bt tr ids i"
    by (simp add: history_def requests_of_append)
  have "export_loop e bt (map fst schema) ids 0 0 ?tr2
          = export_loop e bt (map fst schema) (drop k ids) (0 + k) (0 + k)
              (?tr2 @ export_steps bt 0 ids rows k)"
    using assms(2,3) by (intro export_loop_prefix) (simp_all only: h)
  then show ?thesis
    using assms(1) by (simp add: export_patients_def list_patient_class_properties_eq Let_def)
qed

lemma requests_of_export_prefix:
  "k \<le> length ids \<Longrightarrow>
   requests_of (tr @ [Request (class_request bt), WriteRow header] @ export_steps bt 0 ids rows k)
     = history bt tr ids k"
  by (simp add: history_def requests_of_append requests_of_export_steps)


lemma export_patients_run:
  assumes "schema_result e bt (requests_of tr) = Inr schema"
  shows "\<exists>k rows. k \<le> length ids \<and> length rows = k
           \<and> (\<forall>i<k. \<exists>patient. fetch_result e bt (history bt tr ids i) (ids ! i) = Inr patient
                               \<and> make_row (map fst schema) patient [] = Inr (rows ! i))
           \<and> ((k = length ids
                \<and> export_patients e bt ids elapsed tr
                    = (Inr (length ids, elapsed),
                       tr @ [Request (class_request bt), WriteRow (map Some (map fst schema))]
                          @ export_steps bt 0 ids rows k))
              \<or> (k < length ids
                \<and> (\<exists>err. export_patients e bt ids elapsed tr
                    = (Inl err,
                       tr @ [Request (class_request bt), WriteRow (map Some (map fst schema))]
                          @ export_steps bt 0 ids rows k
                          @ [Progress k, Request (patient_request bt (ids ! k))]))))"
proof -
  let ?keys = "map fst schema"
  let ?h = "requests_of tr @ [class_request bt]"
  have hist: "\<And>i. ?h @ map (patient_request bt) (take i ids) = history bt tr ids i"
    by (simp add: history_def)
  obtain k rows where kr: "k \<le> length ids" "length rows = k"
    "\<forall>i<k. \<exists>patient. fetch_result e bt (history bt tr ids i) (ids ! i) = Inr patient
                     \<and> make_row ?keys patient [] = Inr (rows ! i)"
    "k < length ids \<longrightarrow> \<not> (\<exists>patient row.
        fetch_result e bt (history bt tr ids k) (ids ! k) = Inr patient
        \<and> make_row ?keys patient [] = Inr row)"
    using export_run_exists [of "length ids" e bt ?h ids ?keys] unfolding hist by blast
  let ?tr3 = "tr @ [Request (class_request bt), WriteRow (map Some ?keys)]
                @ export_steps bt 0 ids rows k"
  have p: "export_patients e bt ids elapsed tr
             = (case export_loop e bt ?keys (drop k ids) k k ?tr3 of
                  (Inl err, tr3) \<Rightarrow> (Inl err, tr3)
                | (Inr n_exported, tr3) \<Rightarrow> (Inr (n_exported, elapsed), tr3))"
    using assms kr(1,3) by (rule export_patients_prefix)
  have rq: "requests_of ?tr3 = history bt tr ids k"
    using kr(1) by (rule requests_of_export_prefix)
  show ?thesis
  proof (cases "k = length ids")
    case True
    then have "export_patients e bt ids elapsed tr = (Inr (length ids, elapsed), ?tr3)"
      using p by simp
    then show ?thesis
      using True kr(2,3) by blast
  next
    case False
    then have k: "k < length ids" using kr(1) by simp
    have d: "drop k ids = ids ! k # drop (Suc k) ids"
      using k by (simp add: Cons_nth_drop_Suc)
    have "\<exists>err. export_loop e bt ?keys (ids ! k # drop (Suc k) ids) k k ?tr3
            = (Inl err, ?tr3 @ [Progress k, Request (patient_request bt (ids ! k))])"
    proof (cases "fetch_result e bt (history bt tr ids k) (ids ! k)")
      case (Inl err)
      then show ?thesis
        using export_loop_step_fetch_error [of e bt ?tr3 "ids ! k" err] rq by auto
    next
      case (Inr patient)
      then obtain err where "make_row ?keys patient [] = Inl err"
        using kr(4) k by (cases "make_row ?keys patient []") auto
      then show ?thesis
        using export_loop_step_row_error [of e bt ?tr3 "ids ! k" patient ?keys err] Inr rq by auto
    qed
    then obtain err where "export_patients e bt ids elapsed tr
        = (Inl err, ?tr3 @ [Progress k, Request (patient_request bt (ids ! k))])"
      unfolding p d by auto
    then show ?thesis
      using k kr(1,2,3) by (intro exI [of _ k] exI [of _ rows]) auto
  qed
qed


text \<open>The scenario of the exporter, evaluated.\<close>

lemma export_env_schema:
  "schema_result export_env demo_bot h
     = Inr [(''first_name'', \<lparr>prop_type = ''String'', numberType = None,
                                validationRegExp = None, prop_values = None\<rparr>),
            (''last_name'', \<lparr>prop_type = ''String'', numberType = None,
                               validationRegExp = None, prop_values = None\<rparr>)]"
  by (simp add: schema_result_def list_patient_class_properties_def list_class_properties_def
      send_def mk_request_def export_env_def demo_bot_def ok_xml_def raise_for_status_def Let_def
      schema_root_def iter_tag_def class_property_def children_tagged_def having_attr_def
      first_match_def attr_value_def)

lemma export_env_ann:
  "fetch_result export_env demo_bot h ''P0000001''
     = Inr [(''first_name'', Some ''Ann''), (''last_name'', Some ''Lee'')]"
  by (simp add: fetch_result_def get_def get_object_def send_def mk_request_def export_env_def
      demo_bot_def ok_xml_def raise_for_status_def Let_def patient_root_def iter_tag_def
      children_tagged_def first_match_def schema_body_def ann_body_def)

lemma export_env_bo:
  "fetch_result export_env demo_bot h ''P0000002''
     = Inr [(''first_name'', Some ''Bo''), (''last_name'', Some ''Smith'')]"
  by (simp add: fetch_result_def get_def get_object_def send_def mk_request_def export_env_def
      demo_bot_def ok_xml_def raise_for_status_def Let_def patient_root_def iter_tag_def
      children_tagged_def first_match_def schema_body_def ann_body_def bo_body_def)

lemma export_env_cy:
  "fetch_result export_env demo_bot h ''P0000003'' = Inr [(''first_name'', Some ''Cy'')]"
  by (simp add: fetch_result_def get_def get_object_def send_def mk_request_def export_env_def
      demo_bot_def ok_xml_def raise_for_status_def Let_def patient_root_def iter_tag_def
      children_tagged_def first_match_def schema_body_def ann_body_def bo_body_def cy_body_def)

lemma export_env_missing:
  "fetch_result export_env demo_bot h ''P0000009'' = Inl (HTTPError 404)"
  by (simp add: fetch_result_def get_def get_object_def send_def mk_request_def export_env_def
      demo_bot_def raise_for_status_def Let_def)


section \<open>Export: count, rows and abort\<close>

text \<open>
  C1, as stated: if every per-patient fetch succeeds, \<open>export_patients\<close> returns the
  number of input IDs as its count. This fails when a fetch succeeds with a property bag
  that lacks a property of the schema: \<^verbatim>\<open>patient[prop_name]\<close> raises \<^verbatim>\<open>KeyError\<close>, the
  export aborts and returns no count. Here the one fetch returns a bag without
  \<open>last_name\<close>.
\<close>

theorem export_patients_incomplete_patient_counterexample:
  "fetch_result export_env demo_bot (history demo_bot [] [''P0000003''] 0) ''P0000003''
     = Inr [(''first_name'', Some ''Cy'')]
   \<and> fst (export_patients export_env demo_bot [''P0000003''] () []) = Inl (KeyError ''last_name'')
   \<and> rows_of (snd (export_patients export_env demo_bot [''P0000003''] () []))
       = [[Some ''first_name'', Some ''last_name'']]"
  by (simp add: export_patients_def list_patient_class_properties_eq get_eq export_env_schema
      export_env_cy Let_def)

text \<open>
  C1, amended. Let the schema fetch succeed, and let the first \<open>k\<close> fetches succeed
  with bags that hold every property of the schema, \<open>rows ! i\<close> being the values of
  the bag of patient \<open>i\<close> in schema order. If \<open>k\<close> is the number of IDs,
  \<open>export_patients\<close> returns that number as its count and has written, after the
  header, exactly the rows \<open>rows\<close>: one per ID, in input order. If the fetch of
  patient \<open>k\<close> fails with \<open>err\<close>, the export aborts with \<open>err\<close>; the rows written
  are the header and the \<open>k\<close> rows of the patients before, which remain, and no
  further row. The same holds, with a \<^verbatim>\<open>KeyError\<close> for a missing property, if the fetch
  of patient \<open>k\<close> succeeds with a bag that lacks a property of the schema.
\<close>

theorem export_patients_outcome:
  assumes "schema_result e bt (requests_of tr) = Inr schema"
    and "k \<le> length ids" and "length rows = k"
    and "\<forall>i<k. \<exists>patient. fetch_result e bt (history bt tr ids i) (ids ! i) = Inr patient
                         \<and> map (map_of patient) (map fst schema) = map Some (rows ! i)"
  shows "(k = length ids \<longrightarrow>
            fst (export_patients e bt ids elapsed tr) = Inr (length ids, elapsed)
            \<and> rows_of (snd (export_patients e bt ids elapsed tr))
                = rows_of tr @ map Some (map fst schema) # rows)
       \<and> (k < length ids \<and> fetch_result e bt (history bt tr ids k) (ids ! k) = Inl err \<longrightarrow>
            fst (export_patients e bt ids elapsed tr) = Inl err
            \<and> rows_of (snd (export_patients e bt ids elapsed tr))
                = rows_of tr @ map Some (map fst schema) # rows)
       \<and> (k < length ids \<and> fetch_result e bt (history bt tr ids k) (ids ! k) = Inr incomplete
            \<and> p \<in> set (map fst schema) \<and> map_of incomplete p = None \<longrightarrow>
            (\<exists>q\<in>set (map fst schema). map_of incomplete q = None
                \<and> fst (export_patients e bt ids elapsed tr) = Inl (KeyError q))
            \<and> rows_of (snd (export_patients e bt ids elapsed tr))
                = rows_of tr @ map Some (map fst schema) # rows)"
proof -
  let ?hd = "map Some (map fst schema)"
  let ?tr3 = "tr @ [Request (class_request bt), WriteRow ?hd] @ export_steps bt 0 ids rows k"
  have p: "export_patients e bt ids elapsed tr
             = (case export_loop e bt (map fst schema) (drop k ids) k k ?tr3 of
                  (Inl err, tr3) \<Rightarrow> (Inl err, tr3)
                | (Inr n_exported, tr3) \<Rightarrow> (Inr (n_exported, elapsed), tr3))"
    using assms(1,2,4) by (intro export_patients_prefix) (simp_all add: make_row_rows)
  have rows: "rows_of ?tr3 = rows_of tr @ ?hd # rows"
    using assms(3) by (simp add: rows_of_append rows_of_export_steps)
  have full: "k = length ids \<Longrightarrow> export_patients e bt ids elapsed tr = (Inr (length ids, elapsed), ?tr3)"
    using p by simp
  have part: "export_patients e bt ids elapsed tr
                = (Inl err, ?tr3 @ [Progress k, Request (patient_request bt (ids ! k))])"
    if "k < length ids" and f: "fetch_result e bt (history bt tr ids k) (ids ! k) = Inl err"
  proof -
    have d: "drop k ids = ids ! k # drop (Suc k) ids"
      using that(1) by (simp add: Cons_nth_drop_Suc)
    have "fetch_result e bt (requests_of ?tr3) (ids ! k) = Inl err"
      using f assms(2) requests_of_export_prefix [of k ids tr bt ?hd rows] by simp
    then show ?thesis
      unfolding p d by (simp only: export_loop_step_fetch_error prod.case sum.case)
  qed
  have key: "\<exists>q\<in>set (map fst schema). map_of incomplete q = None
               \<and> export_patients e bt ids elapsed tr
                   = (Inl (KeyError q), ?tr3 @ [Progress k, Request (patient_request bt (ids ! k))])"
    if "k < length ids" and f: "fetch_result e bt (history bt tr ids k) (ids ! k) = Inr incomplete"
      and m: "p \<in> set (map fst schema)" "map_of incomplete p = None"
  proof -
    have d: "drop k ids = ids ! k # drop (Suc k) ids"
      using that(1) by (simp add: Cons_nth_drop_Suc)
    obtain q where q: "q \<in> set (map fst schema)" "map_of incomplete q = None"
      "make_row (map fst schema) incomplete [] = Inl (KeyError q)"
      using make_row_incomplete [OF m] by blast
    have "fetch_result e bt (requests_of ?tr3) (ids ! k) = Inr incomplete"
      using f assms(2) requests_of_export_prefix [of k ids tr bt ?hd rows] by simp
    then have "export_patients e bt ids elapsed tr
                 = (Inl (KeyError q), ?tr3 @ [Progress k, Request (patient_request bt (ids ! k))])"
      unfolding p d using q(3)
      by (simp only: export_loop_step_row_error prod.case sum.case)
    then show ?thesis using q(1,2) by blast
  qed
  have key_rows: "rows_of (snd (export_patients e bt ids elapsed tr)) = rows_of tr @ ?hd # rows"
    if a: "k < length ids" "fetch_result e bt (history bt tr ids k) (ids ! k) = Inr incomplete"
      "p \<in> set (map fst schema)" "map_of incomplete p = None"
  proof -
    have "snd (export_patients e bt ids elapsed tr)
                 = ?tr3 @ [Progress k, Request (patient_request bt (ids ! k))]"
      using key [OF a] by auto
    then show ?thesis
      using rows by (simp only: rows_of_append) simp
  qed
  show ?thesis
  proof (intro conjI impI)
    assume "k < length ids \<and> fetch_result e bt (history bt tr ids k) (ids ! k) = Inr incomplete
            \<and> p \<in> set (map fst schema) \<and> map_of incomplete p = None"
    then show "\<exists>q\<in>set (map fst schema). map_of incomplete q = None
                \<and> fst (export_patients e bt ids elapsed tr) = Inl (KeyError q)"
      using key by force
  next
    assume "k < length ids \<and> fetch_result e bt (history bt tr ids k) (ids ! k) = Inr incomplete
            \<and> p \<in> set (map fst schema) \<and> map_of incomplete p = None"
    then show "rows_of (snd (export_patients e bt ids elapsed tr)) = rows_of tr @ ?hd # rows"
      using key_rows by simp
  next
    assume "k = length ids"
    then show "fst (export_patients e bt ids elapsed tr) = Inr (length ids, elapsed)"
      using full by simp
  next
    assume "k = length ids"
    then show "rows_of (snd (export_patients e bt ids elapsed tr)) = rows_of tr @ ?hd # rows"
      using full rows by simp
  next
    assume a: "k < length ids \<and> fetch_result e bt (history bt tr ids k) (ids ! k) = Inl err"
    then show "fst (export_patients e bt ids elapsed tr) = Inl err"
      using part by simp
  next
    assume a: "k < length ids \<and> fetch_result e bt (history bt tr ids k) (ids ! k) = Inl err"
    then have "snd (export_patients e bt ids elapsed tr)
                 = ?tr3 @ [Progress k, Request (patient_request bt (ids ! k))]"
      using part by simp
    then show "rows_of (snd (export_patients e bt ids elapsed tr)) = rows_of tr @ ?hd # rows"
      using rows by (simp only: rows_of_append) simp
  qed
qed

theorem export_patients_outcome_witness:
  "fst (export_patients export_env demo_bot [''P0000001'', ''P0000002''] () []) = Inr (2, ())
   \<and> rows_of (snd (export_patients export_env demo_bot [''P0000001'', ''P0000002''] () []))
       = [[Some ''first_name'', Some ''last_name''], [Some ''Ann'', Some ''Lee''],
          [Some ''Bo'', Some ''Smith'']]
   \<and> fst (export_patients export_env demo_bot [''P0000001'', ''P0000009'', ''P0000002''] () [])
       = Inl (HTTPError 404)
   \<and> rows_of (snd (export_patients export_env demo_bot
                      [''P0000001'', ''P0000009'', ''P0000002''] () []))
       = [[Some ''first_name'', Some ''last_name''], [Some ''Ann'', Some ''Lee'']]
   \<and> fst (export_patients export_env demo_bot [''P0000001'', ''P0000003'', ''P0000002''] () [])
       = Inl (KeyError ''last_name'')
   \<and> rows_of (snd (export_patients export_env demo_bot
                      [''P0000001'', ''P0000003'', ''P0000002''] () []))
       = [[Some ''first_name'', Some ''last_name''], [Some ''Ann'', Some ''Lee'']]"
proof -
  let ?rows = "[[Some ''Ann'', Some ''Lee''], [Some ''Bo'', Some ''Smith'']]"
  have a: "\<forall>i<2. \<exists>patient.
      fetch_result export_env demo_bot (history demo_bot [] [''P0000001'', ''P0000002''] i)
        ([''P0000001'', ''P0000002''] ! i) = Inr patient
      \<and> map (map_of patient) (map fst [(''first_name'', \<lparr>prop_type = ''String'', numberType = None,
                                validationRegExp = None, prop_values = None\<rparr>),
            (''last_name'', \<lparr>prop_type = ''String'', numberType = None,
                               validationRegExp = None, prop_values = None\<rparr>)]) = map Some (?rows ! i)"
    by (simp add: numeral_2_eq_2 less_Suc_eq export_env_ann export_env_bo)
  have b: "\<forall>i<1. \<exists>patient.
      fetch_result export_env demo_bot
        (history demo_bot [] [''P0000001'', ''P0000009'', ''P0000002''] i)
        ([''P0000001'', ''P0000009'', ''P0000002''] ! i) = Inr patient
      \<and> map (map_of patient) (map fst [(''first_name'', \<lparr>prop_type = ''String'', numberType = None,
                                validationRegExp = None, prop_values = None\<rparr>),
            (''last_name'', \<lparr>prop_type = ''String'', numberType = None,
                               validationRegExp = None, prop_values = None\<rparr>)])
          = map Some ([[Some ''Ann'', Some ''Lee'']] ! i)"
    by (simp add: export_env_ann)
  have c: "\<forall>i<1. \<exists>patient.
      fetch_result export_env demo_bot
        (history demo_bot [] [''P0000001'', ''P0000003'', ''P0000002''] i)
        ([''P0000001'', ''P0000003'', ''P0000002''] ! i) = Inr patient
      \<and> map (map_of patient) (map fst [(''first_name'', \<lparr>prop_type = ''String'', numberType = None,
                                validationRegExp = None, prop_values = None\<rparr>),
            (''last_name'', \<lparr>prop_type = ''String'', numberType = None,
                               validationRegExp = None, prop_values = None\<rparr>)])
          = map Some ([[Some ''Ann'', Some ''Lee'']] ! i)"
    by (simp add: export_env_ann)
  have full: "fst (export_patients export_env demo_bot [''P0000001'', ''P0000002''] () [])
                = Inr (2, ())
      \<and> rows_of (snd (export_patients export_env demo_bot [''P0000001'', ''P0000002''] () []))
          = [[Some ''first_name'', Some ''last_name''], [Some ''Ann'', Some ''Lee''],
             [Some ''Bo'', Some ''Smith'']]"
    using export_patients_outcome [where tr = "[]" and elapsed = "()", OF export_env_schema _ _ a]
    by simp
  have missing: "fst (export_patients export_env demo_bot
                        [''P0000001'', ''P0000009'', ''P0000002''] () []) = Inl (HTTPError 404)
      \<and> rows_of (snd (export_patients export_env demo_bot
                         [''P0000001'', ''P0000009'', ''P0000002''] () []))
          = [[Some ''first_name'', Some ''last_name''], [Some ''Ann'', Some ''Lee'']]"
    using export_patients_outcome [where tr = "[]" and elapsed = "()" and err = "HTTPError 404",
        OF export_env_schema _ _ b]
    by (simp add: export_env_missing history_def)
  have incomplete: "fst (export_patients export_env demo_bot
                        [''P0000001'', ''P0000003'', ''P0000002''] () [])
                      = Inl (KeyError ''last_name'')
      \<and> rows_of (snd (export_patients export_env demo_bot
                         [''P0000001'', ''P0000003'', ''P0000002''] () []))
          = [[Some ''first_name'', Some ''last_name''], [Some ''Ann'', Some ''Lee'']]"
    using export_patients_outcome [where tr = "[]" and elapsed = "()"
        and incomplete = "[(''first_name'', Some ''Cy'')]" and p = "''last_name''",
        OF export_env_schema _ _ c]
    by (auto simp add: export_env_cy history_def)
  show ?thesis
    using full missing incomplete by simp
qed

section \<open>Schema order\<close>

text \<open>
  The order of the schema that \<open>list_class_properties\<close> returns: when the property
  elements of the class carry distinct names, the keys of the schema are those names in
  document order.
\<close>

lemma update_fresh: "k \<notin> fst ` set al \<Longrightarrow> AList.update k v al = al @ [(k, v)]"
  by (induction al) auto

lemma class_property_name:
  "class_property prop = Inr (n, d) \<Longrightarrow> map_of (attrib prop) ''name'' = Some n"
  by (auto simp add: class_property_def Let_def split: option.splits sum.splits)

lemma class_properties_loop_keys:
  assumes "class_properties_loop props ret = Inr schema"
    and "distinct (map Some (map fst ret) @ map (\<lambda>p. map_of (attrib p) ''name'') props)"
  shows "map Some (map fst schema)
           = map Some (map fst ret) @ map (\<lambda>p. map_of (attrib p) ''name'') props"
  using assms
proof (induction props arbitrary: ret)
  case Nil
  then show ?case by simp
next
  case (Cons el els)
  from Cons.prems(1) obtain n d where nd: "class_property el = Inr (n, d)"
    and loop: "class_properties_loop els (AList.update n d ret) = Inr schema"
    by (auto split: sum.splits)
  have name: "map_of (attrib el) ''name'' = Some n"
    using nd by (rule class_property_name)
  have fresh: "n \<notin> fst ` set ret"
    using Cons.prems(2) name by auto
  have upd: "AList.update n d ret = ret @ [(n, d)]"
    using fresh by (rule update_fresh)
  have "distinct (map Some (map fst (ret @ [(n, d)]))
          @ map (\<lambda>p. map_of (attrib p) ''name'') els)"
    using Cons.prems(2) name by auto
  then have "map Some (map fst schema)
           = map Some (map fst (ret @ [(n, d)])) @ map (\<lambda>p. map_of (attrib p) ''name'') els"
    using Cons.IH [of "ret @ [(n, d)]"] loop upd by simp
  then show ?case using name by simp
qed

lemma schema_result_order:
  assumes "schema_result e bt h = Inr schema"
    and "server e h (class_request bt) = Inr r"
    and "fromstring e (resp_text r) = Inr root"
    and "distinct (map (\<lambda>p. map_of (attrib p) ''name'')
           (iter_tag ''{http://www.xwiki.org}property'' root))"
  shows "map Some (map fst schema)
           = map (\<lambda>p. map_of (attrib p) ''name'') (iter_tag ''{http://www.xwiki.org}property'' root)"
proof -
  have "class_properties_loop (iter_tag ''{http://www.xwiki.org}property'' root) [] = Inr schema"
    using assms(1,2,3)
    by (simp add: schema_result_def list_patient_class_properties_def list_class_properties_def
        send_def class_request_def Let_def requests_of_map_Request split: sum.splits)
  then show ?thesis
    using class_properties_loop_keys [of _ "[]" schema] assms(4) by simp
qed

section \<open>Export: columns\<close>

text \<open>
  C2. When the schema fetch returns \<open>schema\<close> (empty or not), the first row
  \<open>export_patients\<close> writes is the header, the property names of \<open>schema\<close> in its
  order, and every row written after it is the row of a patient, in input order: its
  cells are the values the fetched bag of that patient holds for the property names, in
  the same order as the header.
\<close>

theorem export_patients_columns:
  assumes "schema_result e bt (requests_of tr) = Inr schema"
  shows "\<exists>rows. rows_of (snd (export_patients e bt ids elapsed tr))
                  = rows_of tr @ map Some (map fst schema) # rows
           \<and> length rows \<le> length ids
           \<and> (\<forall>i<length rows. \<exists>patient.
                  fetch_result e bt (history bt tr ids i) (ids ! i) = Inr patient
                  \<and> map Some (rows ! i) = map (map_of patient) (map fst schema))"
proof -
  let ?hd = "map Some (map fst schema)"
  obtain k rows where kr: "k \<le> length ids" "length rows = k"
    "\<forall>i<k. \<exists>patient. fetch_result e bt (history bt tr ids i) (ids ! i) = Inr patient
                     \<and> make_row (map fst schema) patient [] = Inr (rows ! i)"
    "(\<exists>res. export_patients e bt ids elapsed tr
        = (res, tr @ [Request (class_request bt), WriteRow ?hd] @ export_steps bt 0 ids rows k))
     \<or> (\<exists>res. export_patients e bt ids elapsed tr
        = (res, tr @ [Request (class_request bt), WriteRow ?hd] @ export_steps bt 0 ids rows k
                  @ [Progress k, Request (patient_request bt (ids ! k))]))"
    using export_patients_run [OF assms, of ids elapsed] by blast
  have st: "rows_of (export_steps bt 0 ids rows k) = rows"
    using kr(2) by (simp add: rows_of_export_steps)
  have "rows_of (snd (export_patients e bt ids elapsed tr)) = rows_of tr @ ?hd # rows"
    using kr(4) st by (auto simp add: rows_of_append)
  moreover have "\<forall>i<length rows. \<exists>patient.
      fetch_result e bt (history bt tr ids i) (ids ! i) = Inr patient
      \<and> map Some (rows ! i) = map (map_of patient) (map fst schema)"
    using kr(2,3) by (metis make_row_rows)
  ultimately show ?thesis
    using kr(1,2) by blast
qed


theorem export_patients_columns_witness:
  "(\<exists>rows. rows_of (snd (export_patients export_env demo_bot [''P0000001'', ''P0000002''] () []))
            = [Some ''first_name'', Some ''last_name''] # rows
     \<and> length rows \<le> 2
     \<and> (\<forall>i<length rows. \<exists>patient.
           fetch_result export_env demo_bot (history demo_bot [] [''P0000001'', ''P0000002''] i)
             ([''P0000001'', ''P0000002''] ! i) = Inr patient
           \<and> map Some (rows ! i) = map (map_of patient) [''first_name'', ''last_name'']))
   \<and> rows_of (snd (export_patients export_env demo_bot [''P0000001'', ''P0000002''] () []))
       = [[Some ''first_name'', Some ''last_name''], [Some ''Ann'', Some ''Lee''],
          [Some ''Bo'', Some ''Smith'']]"
proof -
  have "rows_of (snd (export_patients export_env demo_bot [''P0000001'', ''P0000002''] () []))
       = [[Some ''first_name'', Some ''last_name''], [Some ''Ann'', Some ''Lee''],
          [Some ''Bo'', Some ''Smith'']]"
    by (simp add: export_patients_def list_patient_class_properties_eq get_eq export_env_schema
        export_env_ann export_env_bo Let_def)
  then show ?thesis
    using export_patients_columns [where tr = "[]" and elapsed = "()"
        and ids = "[''P0000001'', ''P0000002'']", OF export_env_schema]
    by (simp add: numeral_2_eq_2)
qed

section \<open>Export: progress callback\<close>

text \<open>
  C6, as stated: for every list of \<open>n\<close> patient IDs the progress callback is invoked
  exactly \<open>n\<close> times. A fetch that fails ends the export: with two IDs of which the
  first is not found, the callback is invoked once, with 0.
\<close>

theorem export_patients_abort_counterexample:
  "length [''P0000009'', ''P0000001''] = 2
   \<and> fst (export_patients export_env demo_bot [''P0000009'', ''P0000001''] () [])
       = Inl (HTTPError 404)
   \<and> progress_of (snd (export_patients export_env demo_bot [''P0000009'', ''P0000001''] () []))
       = [0]"
  by (simp add: export_patients_def list_patient_class_properties_eq get_eq export_env_schema
      export_env_missing Let_def)

text \<open>
  C6, amended. In every run of \<open>export_patients\<close> on \<open>n\<close> patient IDs the progress
  callback is invoked \<open>k \<le> n\<close> times, with the values \<open>0, ..., k - 1\<close> in increasing
  order; \<open>k\<close> is the number of patients whose fetch was issued, the invocation with
  value \<open>i\<close> comes immediately before the fetch of the patient at index \<open>i\<close> (the
  calls and requests of the run are the schema request followed by callback and fetch in
  turn), and \<open>k = n\<close> when the export returns.
\<close>

theorem export_patients_progress:
  "\<exists>k new. k \<le> length ids
     \<and> snd (export_patients e bt ids elapsed tr) = tr @ new
     \<and> progress_of new = [0..<k]
     \<and> calls_of new
         = Request (class_request bt)
             # concat (map (\<lambda>i. [Progress i, Request (patient_request bt (ids ! i))]) [0..<k])
     \<and> (\<forall>res. fst (export_patients e bt ids elapsed tr) = Inr res \<longrightarrow> k = length ids)"
proof (cases "schema_result e bt (requests_of tr)")
  case (Inl err)
  then have "export_patients e bt ids elapsed tr = (Inl err, tr @ [Request (class_request bt)])"
    by (rule export_patients_schema_error)
  then show ?thesis
    by (intro exI [of _ 0] exI [of _ "[Request (class_request bt)]"]) simp
next
  case (Inr schema)
  let ?hd = "map Some (map fst schema)"
  obtain k rows where kr: "k \<le> length ids"
    "(k = length ids
        \<and> export_patients e bt ids elapsed tr
            = (Inr (length ids, elapsed),
               tr @ [Request (class_request bt), WriteRow ?hd] @ export_steps bt 0 ids rows k))
     \<or> (k < length ids
        \<and> (\<exists>err. export_patients e bt ids elapsed tr
            = (Inl err,
               tr @ [Request (class_request bt), WriteRow ?hd] @ export_steps bt 0 ids rows k
                  @ [Progress k, Request (patient_request bt (ids ! k))])))"
    using export_patients_run [OF Inr, of ids elapsed] by blast
  let ?new = "[Request (class_request bt), WriteRow ?hd] @ export_steps bt 0 ids rows k"
  have pr: "progress_of ?new = [0..<k]"
    by (simp add: progress_of_append progress_of_export_steps)
  have ca: "calls_of ?new
              = Request (class_request bt)
                  # concat (map (\<lambda>i. [Progress i, Request (patient_request bt (ids ! i))]) [0..<k])"
    by (simp add: calls_of_append calls_of_export_steps)
  from kr(2) show ?thesis
  proof
    assume a: "k = length ids
        \<and> export_patients e bt ids elapsed tr = (Inr (length ids, elapsed), tr @ ?new)"
    show ?thesis
      using a pr ca by (intro exI [of _ k] exI [of _ ?new]) simp
  next
    assume a: "k < length ids
        \<and> (\<exists>err. export_patients e bt ids elapsed tr
            = (Inl err,
               tr @ [Request (class_request bt), WriteRow ?hd] @ export_steps bt 0 ids rows k
                  @ [Progress k, Request (patient_request bt (ids ! k))]))"
    let ?new2 = "?new @ [Progress k, Request (patient_request bt (ids ! k))]"
    have pr2: "progress_of ?new2 = [0..<Suc k]"
      using pr by (simp only: progress_of_append) simp
    have ca2: "calls_of ?new2
              = Request (class_request bt)
                  # concat (map (\<lambda>i. [Progress i, Request (patient_request bt (ids ! i))])
                      [0..<Suc k])"
      using ca by (simp only: calls_of_append) simp
    from a obtain err where
      "export_patients e bt ids elapsed tr = (Inl err, tr @ ?new2)" by auto
    then show ?thesis
      using a pr2 ca2 by (intro exI [of _ "Suc k"] exI [of _ ?new2]) simp
  qed
qed

theorem export_patients_progress_witness:
  "fst (export_patients export_env demo_bot [''P0000001'', ''P0000002''] () []) = Inr (2, ())
   \<and> progress_of (snd (export_patients export_env demo_bot [''P0000001'', ''P0000002''] () []))
       = [0, 1]
   \<and> calls_of (snd (export_patients export_env demo_bot [''P0000001'', ''P0000002''] () []))
       = [Request (class_request demo_bot),
          Progress 0, Request (patient_request demo_bot ''P0000001''),
          Progress 1, Request (patient_request demo_bot ''P0000002'')]"
proof -
  let ?run = "export_patients export_env demo_bot [''P0000001'', ''P0000002''] () []"
  have r: "fst ?run = Inr (2, ())"
    by (simp add: export_patients_def list_patient_class_properties_eq get_eq export_env_schema
        export_env_ann export_env_bo Let_def)
  obtain k new where kn: "snd ?run = [] @ new" "progress_of new = [0..<k]"
    "calls_of new = Request (class_request demo_bot)
       # concat (map (\<lambda>i. [Progress i, Request (patient_request demo_bot
                                  ([''P0000001'', ''P0000002''] ! i))]) [0..<k])"
    "\<forall>res. fst ?run = Inr res \<longrightarrow> k = length [''P0000001'', ''P0000002'']"
    using export_patients_progress [where ids = "[''P0000001'', ''P0000002'']"
        and e = export_env and bt = demo_bot and elapsed = "()" and tr = "[]"]
    by blast
  have k: "k = 2" using kn(4) r by simp
  have u: "[0..<2] = [0, 1]" by (simp add: upt_rec)
  show ?thesis
    using r kn(1,2,3) unfolding k u by simp
qed

end
